theory Spec2Isabelle
  imports Complex_Main "HOL-Library.Multiset"
begin

section \<open>JavaScript strings\<close>

text \<open>
  A JavaScript string is a sequence of code units; it is modelled as a \<open>string\<close>
  (a \<open>char list\<close>), so the model covers the code units U+0000 .. U+00FF.
  \<open>startsWith\<close>, \<open>indexOf\<close> and \<open>includes_str\<close> are the methods
  \<open>startsWith\<close>, \<open>indexOf\<close> and \<open>includes\<close> of \<open>String.prototype\<close>
  (position argument 0); \<open>indexOf\<close> returns \<open>None\<close> for JavaScript's -1.
\<close>

fun startsWith :: "string \<Rightarrow> string \<Rightarrow> bool" where
  "startsWith s [] = True"
| "startsWith [] (p # ps) = False"
| "startsWith (c # cs) (p # ps) = (c = p \<and> startsWith cs ps)"

fun indexOf :: "string \<Rightarrow> string \<Rightarrow> nat option" where
  "indexOf [] p = (if p = [] then Some 0 else None)"
| "indexOf (c # cs) p =
     (if startsWith (c # cs) p then Some 0 else map_option Suc (indexOf cs p))"

definition includes_str :: "string \<Rightarrow> string \<Rightarrow> bool" where
  "includes_str s p = (indexOf s p \<noteq> None)"

definition isWhiteSpace :: "char \<Rightarrow> bool" where
  \<comment> \<open>WhiteSpace and LineTerminator code units below U+0100: what \<open>\s\<close> matches and
      \<open>trim\<close> removes\<close>
  "isWhiteSpace c = (c \<in> set [CHR 0x09, CHR 0x0A, CHR 0x0B, CHR 0x0C, CHR 0x0D, CHR 0x20, CHR 0xA0])"

definition isDigit :: "char \<Rightarrow> bool" where
  \<comment> \<open>\<open>\d\<close>\<close>
  "isDigit c = (48 \<le> (of_char c :: nat) \<and> (of_char c :: nat) \<le> 57)"

definition isAnyChar :: "char \<Rightarrow> bool" where
  \<comment> \<open>\<open>[\s\S]\<close>\<close>
  "isAnyChar c = True"

definition trim :: "string \<Rightarrow> string" where
  "trim s = rev (dropWhile isWhiteSpace (rev (dropWhile isWhiteSpace s)))"

definition toLowerChar :: "char \<Rightarrow> char" where
  \<comment> \<open>lower-casing of one code unit below U+0100 (A-Z, and U+00C0..U+00DE except U+00D7)\<close>
  "toLowerChar c =
     (let n = (of_char c :: nat)
      in if (65 \<le> n \<and> n \<le> 90) \<or> (192 \<le> n \<and> n \<le> 222 \<and> n \<noteq> 215)
         then char_of (n + 32) else c)"

definition toLowerCase :: "string \<Rightarrow> string" where
  "toLowerCase s = map toLowerChar s"

fun showNat :: "nat \<Rightarrow> string" where
  \<comment> \<open>the decimal digits of a non-negative integer, as a template literal prints it\<close>
  "showNat n = (if n < 10 then [char_of (48 + n)] else showNat (n div 10) @ [char_of (48 + n mod 10)])"

section \<open>Exceptions\<close>

text \<open>
  A thrown JavaScript \<open>Error\<close> is a value carrying its \<open>message\<close>. An async
  function is modelled by its outcome: \<open>Inr v\<close> when the promise resolves to \<open>v\<close>,
  \<open>Inl e\<close> when it rejects with \<open>e\<close>.
\<close>

datatype error = Error (message: string)

section \<open>Regular expressions\<close>

text \<open>
  The regular expressions of the source are written as terms of \<open>rx\<close>. Every
  quantifier of the source applies to a single-character class, so \<open>Star\<close>,
  \<open>Plus\<close> and \<open>StarLazy\<close> take a class. \<open>rxm r bef s caps\<close> is the
  backtracking matcher of ECMAScript at one position: \<open>s\<close> is the input from the
  position on, \<open>bef\<close> the input before it (reversed), and the result lists the
  ways \<open>r\<close> can match there in the order backtracking tries them, each with the
  number of characters consumed and the captures. The first element is the match
  JavaScript reports.
\<close>

type_synonym caps = "(nat \<times> string) list"

datatype rx =
    Cls "char \<Rightarrow> bool"
  | Lit string
  | LitI string
  | Star "char \<Rightarrow> bool"
  | Plus "char \<Rightarrow> bool"
  | StarLazy "char \<Rightarrow> bool"
  | Opt rx
  | Cat rx rx
  | Alt rx rx
  | Grp nat rx
  | Ahead rx
  | NotBehind "char \<Rightarrow> bool"
  | Bol
  | Eol

fun rxm :: "rx \<Rightarrow> string \<Rightarrow> string \<Rightarrow> caps \<Rightarrow> (nat \<times> caps) list" where
  "rxm (Cls P) bef s c = (case s of [] \<Rightarrow> [] | x # _ \<Rightarrow> if P x then [(1, c)] else [])"
| "rxm (Lit l) bef s c = (if startsWith s l then [(length l, c)] else [])"
| "rxm (LitI l) bef s c =
     (if startsWith (toLowerCase (take (length l) s)) (toLowerCase l) then [(length l, c)] else [])"
| "rxm (Star P) bef s c = map (\<lambda>n. (n, c)) (rev [0..<Suc (length (takeWhile P s))])"
| "rxm (Plus P) bef s c = map (\<lambda>n. (n, c)) (rev [1..<Suc (length (takeWhile P s))])"
| "rxm (StarLazy P) bef s c = map (\<lambda>n. (n, c)) [0..<Suc (length (takeWhile P s))]"
| "rxm (Opt r) bef s c = rxm r bef s c @ [(0, c)]"
| "rxm (Cat a b) bef s c =
     concat (map (\<lambda>(n, c1). map (\<lambda>(m, c2). (n + m, c2))
                                 (rxm b (rev (take n s) @ bef) (drop n s) c1))
                 (rxm a bef s c))"
| "rxm (Alt a b) bef s c = rxm a bef s c @ rxm b bef s c"
| "rxm (Grp i r) bef s c = map (\<lambda>(n, c1). (n, (i, take n s) # c1)) (rxm r bef s c)"
| "rxm (Ahead r) bef s c = (case rxm r bef s c of [] \<Rightarrow> [] | (n, c1) # _ \<Rightarrow> [(0, c1)])"
| "rxm (NotBehind P) bef s c =
     (case bef of [] \<Rightarrow> [(0, c)] | b # _ \<Rightarrow> if P b then [] else [(0, c)])"
| "rxm Bol bef s c = (if bef = [] then [(0, c)] else [])"
| "rxm Eol bef s c = (if s = [] then [(0, c)] else [])"

definition cap :: "caps \<Rightarrow> nat \<Rightarrow> string" where
  \<comment> \<open>the text of capture group \<open>i\<close>; a group that did not take part is the empty string
      wherever the source uses it (\<open>$i\<close> in a template, a truthiness test)\<close>
  "cap c i = (case map_of c i of None \<Rightarrow> [] | Some t \<Rightarrow> t)"

text \<open>
  \<open>rx_search r bef s\<close>: the leftmost match at or after the current position, as
  \<open>(offset, length, captures)\<close>; \<open>str.match(re)\<close> and \<open>re.test(str)\<close> of a
  regular expression without the \<open>g\<close> flag search from the start.
\<close>

fun rx_search :: "rx \<Rightarrow> string \<Rightarrow> string \<Rightarrow> (nat \<times> nat \<times> caps) option" where
  "rx_search r bef [] = (case rxm r bef [] [] of [] \<Rightarrow> None | (n, c) # _ \<Rightarrow> Some (0, n, c))"
| "rx_search r bef (x # xs) =
     (case rxm r bef (x # xs) [] of
        [] \<Rightarrow> map_option (\<lambda>(i, n, c). (Suc i, n, c)) (rx_search r (x # bef) xs)
      | (n, c) # _ \<Rightarrow> Some (0, n, c))"

definition rx_match :: "rx \<Rightarrow> string \<Rightarrow> (nat \<times> nat \<times> caps) option" where
  "rx_match r s = rx_search r [] s"

definition rx_test :: "rx \<Rightarrow> string \<Rightarrow> bool" where
  "rx_test r s = (rx_match r s \<noteq> None)"

text \<open>
  \<open>re.exec(str)\<close> of a regular expression with the \<open>g\<close> flag whose
  \<open>lastIndex\<close> is \<open>li\<close>: the search starts at \<open>li\<close>; the result gives the
  index of the match, its length and the captures (the new \<open>lastIndex\<close> is index +
  length); \<open>None\<close> is \<open>null\<close>.
\<close>

definition rx_exec :: "rx \<Rightarrow> string \<Rightarrow> nat \<Rightarrow> (nat \<times> nat \<times> caps) option" where
  "rx_exec r s li =
     (if li > length s then None
      else map_option (\<lambda>(i, n, c). (li + i, n, c)) (rx_search r (rev (take li s)) (drop li s)))"

text \<open>
  GetSubstitution of ECMAScript: the expansion of a replacement template. \<open>m\<close> is
  the number of capture groups, \<open>b\<close>, \<open>mt\<close> and \<open>a\<close> are the text before the
  match, the match and the text after it. There are no named groups in the source, so
  \<open>$<\<close> stands for itself.
\<close>

fun getSubstitution :: "nat \<Rightarrow> string \<Rightarrow> string \<Rightarrow> string \<Rightarrow> caps \<Rightarrow> string \<Rightarrow> string" where
  "getSubstitution m b mt a c [] = []"
| "getSubstitution m b mt a c [x] = [x]"
| "getSubstitution m b mt a c (x # y # t) =
     (if x \<noteq> CHR ''$'' then x # getSubstitution m b mt a c (y # t)
      else if y = CHR ''$'' then CHR ''$'' # getSubstitution m b mt a c t
      else if y = CHR ''&'' then mt @ getSubstitution m b mt a c t
      else if y = CHR 0x60 then b @ getSubstitution m b mt a c t
      else if y = CHR 0x27 then a @ getSubstitution m b mt a c t
      else if isDigit y then
        (let d1 = of_char y - (48 :: nat);
             one = (if 1 \<le> d1 \<and> d1 \<le> m then cap c d1 @ getSubstitution m b mt a c t
                    else x # y # getSubstitution m b mt a c t)
         in case t of
              [] \<Rightarrow> one
            | z # t' \<Rightarrow>
                if isDigit z then
                  (let nn = 10 * d1 + (of_char z - 48)
                   in if nn \<le> m then
                        (if 1 \<le> nn then cap c nn @ getSubstitution m b mt a c t'
                         else x # y # z # getSubstitution m b mt a c t')
                      else one)
                else one)
      else x # getSubstitution m b mt a c (y # t))"

text \<open>
  \<open>str.replace(re, f)\<close> for a regular expression with the \<open>g\<close> flag: every
  match, left to right, is replaced by \<open>f before match after captures\<close>; after an
  empty match the search moves on by one character.
\<close>

fun rx_replace :: "rx \<Rightarrow> (string \<Rightarrow> string \<Rightarrow> string \<Rightarrow> caps \<Rightarrow> string) \<Rightarrow> string \<Rightarrow> string \<Rightarrow> string" where
  "rx_replace r f bef [] = (case rxm r bef [] [] of [] \<Rightarrow> [] | (n, c) # _ \<Rightarrow> f (rev bef) [] [] c)"
| "rx_replace r f bef (x # xs) =
     (case rxm r bef (x # xs) [] of
        [] \<Rightarrow> x # rx_replace r f (x # bef) xs
      | (n, c) # _ \<Rightarrow>
          if n = 0 then f (rev bef) [] (x # xs) c @ x # rx_replace r f (x # bef) xs
          else f (rev bef) (take n (x # xs)) (drop n (x # xs)) c
               @ rx_replace r f (rev (take n (x # xs)) @ bef) (drop (n - 1) xs))"

definition replaceAll :: "rx \<Rightarrow> nat \<Rightarrow> string \<Rightarrow> string \<Rightarrow> string" where
  \<comment> \<open>\<open>str.replace(re, template)\<close>, \<open>re\<close> with the \<open>g\<close> flag and \<open>m\<close> groups\<close>
  "replaceAll r m template s = rx_replace r (\<lambda>b mt a c. getSubstitution m b mt a c template) [] s"

definition replaceStr :: "string \<Rightarrow> string \<Rightarrow> string \<Rightarrow> string" where
  \<comment> \<open>\<open>str.replace(pattern, replacement)\<close> with a string pattern: the first occurrence
      only, the replacement expanded as a template with no groups\<close>
  "replaceStr s pat rep =
     (case indexOf s pat of
        None \<Rightarrow> s
      | Some i \<Rightarrow>
          take i s @ getSubstitution 0 (take i s) pat (drop (i + length pat) s) [] rep
          @ drop (i + length pat) s)"

section \<open>JSON values and JSON.parse\<close>

text \<open>
  The values \<open>JSON.parse\<close> produces. An object is the list of its properties in
  insertion order. Numbers are JavaScript numbers; they are modelled as exact
  rationals (the value of the decimal literal).
\<close>

datatype json =
    JNull
  | JBool bool
  | JNum rat
  | JStr string
  | JArr "json list"
  | JObj "(string \<times> json) list"

fun objSet :: "string \<Rightarrow> json \<Rightarrow> (string \<times> json) list \<Rightarrow> (string \<times> json) list" where
  \<comment> \<open>define a property: a repeated key keeps its place and takes the new value\<close>
  "objSet k v [] = [(k, v)]"
| "objSet k v ((k', v') # ps) = (if k = k' then (k, v) # ps else (k', v') # objSet k v ps)"

definition isJsonWs :: "char \<Rightarrow> bool" where
  "isJsonWs c = (c = CHR 0x20 \<or> c = CHR 0x09 \<or> c = CHR 0x0A \<or> c = CHR 0x0D)"

definition isHexDigit :: "char \<Rightarrow> bool" where
  "isHexDigit c = (isDigit c \<or> c \<in> set ''abcdefABCDEF'')"

definition hexVal :: "char \<Rightarrow> nat" where
  "hexVal c = (let n = (of_char c :: nat)
               in if n \<le> 57 then n - 48 else if n \<le> 70 then n - 55 else n - 87)"

definition escapeChar :: "char \<Rightarrow> char option" where
  \<comment> \<open>the character after a backslash in a JSON string\<close>
  "escapeChar e =
     (if e = CHR 0x22 then Some (CHR 0x22)
      else if e = CHR 0x5C then Some (CHR 0x5C)
      else if e = CHR ''/'' then Some (CHR ''/'')
      else if e = CHR ''b'' then Some (CHR 0x08)
      else if e = CHR ''f'' then Some (CHR 0x0C)
      else if e = CHR ''n'' then Some (CHR 0x0A)
      else if e = CHR ''r'' then Some (CHR 0x0D)
      else if e = CHR ''t'' then Some (CHR 0x09)
      else None)"

text \<open>
  The body of a string literal after its opening quote: the decoded text and the input
  after the closing quote. A \<open>\uXXXX\<close> escape above U+00FF is outside the code units
  of the model; its low byte is kept.
\<close>

fun parseStringBody :: "string \<Rightarrow> (string \<times> string) option" where
  "parseStringBody [] = None"
| "parseStringBody (c # cs) =
     (if c = CHR 0x22 then Some ([], cs)
      else if c = CHR 0x5C then
        (case cs of
           [] \<Rightarrow> None
         | e # es \<Rightarrow>
             if e = CHR ''u'' then
               (case es of
                  h1 # h2 # h3 # h4 # rest \<Rightarrow>
                    if isHexDigit h1 \<and> isHexDigit h2 \<and> isHexDigit h3 \<and> isHexDigit h4 then
                      map_option (\<lambda>(str, r). (char_of (16 * hexVal h3 + hexVal h4) # str, r))
                        (parseStringBody rest)
                    else None
                | _ \<Rightarrow> None)
             else
               (case escapeChar e of
                  None \<Rightarrow> None
                | Some ch \<Rightarrow> map_option (\<lambda>(str, r). (ch # str, r)) (parseStringBody es)))
      else if (of_char c :: nat) < 32 then None
      else map_option (\<lambda>(str, r). (c # str, r)) (parseStringBody cs))"

definition digitsToNat :: "string \<Rightarrow> nat" where
  "digitsToNat ds = foldl (\<lambda>a c. 10 * a + (of_char c - 48)) 0 ds"

definition parseFraction :: "string \<Rightarrow> (string \<times> string) option" where
  \<comment> \<open>an optional fraction: its digits and the rest\<close>
  "parseFraction s =
     (case s of
        [] \<Rightarrow> Some ([], s)
      | c # cs \<Rightarrow>
          if c = CHR ''.'' then
            (if takeWhile isDigit cs = [] then None
             else Some (takeWhile isDigit cs, dropWhile isDigit cs))
          else Some ([], s))"

definition parseExponent :: "string \<Rightarrow> (int \<times> string) option" where
  \<comment> \<open>an optional exponent: its value and the rest\<close>
  "parseExponent s =
     (case s of
        [] \<Rightarrow> Some (0, s)
      | c # cs \<Rightarrow>
          if c = CHR ''e'' \<or> c = CHR ''E'' then
            (let neg = (case cs of [] \<Rightarrow> False | d # _ \<Rightarrow> d = CHR ''-'');
                 ds = (case cs of [] \<Rightarrow> cs | d # r \<Rightarrow> if d = CHR ''-'' \<or> d = CHR ''+'' then r else cs)
             in if takeWhile isDigit ds = [] then None
                else Some ((if neg then - int (digitsToNat (takeWhile isDigit ds))
                            else int (digitsToNat (takeWhile isDigit ds))),
                           dropWhile isDigit ds))
          else Some (0, s))"

definition parseNumber :: "string \<Rightarrow> (rat \<times> string) option" where
  "parseNumber s =
     (let neg = (case s of [] \<Rightarrow> False | c # _ \<Rightarrow> c = CHR ''-'');
          s1 = (if neg then tl s else s);
          ip = takeWhile isDigit s1
      in if ip = [] \<or> (length ip > 1 \<and> hd ip = CHR ''0'') then None
         else case parseFraction (dropWhile isDigit s1) of
                None \<Rightarrow> None
              | Some (fd, r2) \<Rightarrow>
                  (case parseExponent r2 of
                     None \<Rightarrow> None
                   | Some (ex, r3) \<Rightarrow>
                       Some ((if neg then - 1 else 1)
                             * (of_nat (digitsToNat (ip @ fd)) / 10 ^ length fd)
                             * (if 0 \<le> ex then 10 ^ nat ex else 1 / 10 ^ nat (- ex)),
                             r3)))"

text \<open>
  The recursive descent over values, array elements and object members. The first
  argument bounds the depth of the calls; \<open>JSON_parse\<close> starts it at twice the length
  of the text plus two, which no text reaches (every second call consumes a
  character).
\<close>

fun parseValue :: "nat \<Rightarrow> string \<Rightarrow> (json \<times> string) option"
and parseElements :: "nat \<Rightarrow> string \<Rightarrow> json list \<Rightarrow> (json \<times> string) option"
and parseMembers :: "nat \<Rightarrow> string \<Rightarrow> (string \<times> json) list \<Rightarrow> (json \<times> string) option" where
  "parseValue 0 s = None"
| "parseValue (Suc k) s =
     (case dropWhile isJsonWs s of
        [] \<Rightarrow> None
      | c # cs \<Rightarrow>
          if c = CHR ''{'' then
            (case dropWhile isJsonWs cs of
               [] \<Rightarrow> None
             | d # ds \<Rightarrow> if d = CHR ''}'' then Some (JObj [], ds) else parseMembers k (d # ds) [])
          else if c = CHR ''['' then
            (case dropWhile isJsonWs cs of
               [] \<Rightarrow> None
             | d # ds \<Rightarrow> if d = CHR '']'' then Some (JArr [], ds) else parseElements k (d # ds) [])
          else if c = CHR 0x22 then map_option (\<lambda>(str, r). (JStr str, r)) (parseStringBody cs)
          else if startsWith (c # cs) ''true'' then Some (JBool True, drop 4 (c # cs))
          else if startsWith (c # cs) ''false'' then Some (JBool False, drop 5 (c # cs))
          else if startsWith (c # cs) ''null'' then Some (JNull, drop 4 (c # cs))
          else map_option (\<lambda>(n, r). (JNum n, r)) (parseNumber (c # cs)))"
| "parseElements 0 s acc = None"
| "parseElements (Suc k) s acc =
     (case parseValue k s of
        None \<Rightarrow> None
      | Some (v, r) \<Rightarrow>
          (case dropWhile isJsonWs r of
             [] \<Rightarrow> None
           | c # cs \<Rightarrow>
               if c = CHR '','' then parseElements k cs (acc @ [v])
               else if c = CHR '']'' then Some (JArr (acc @ [v]), cs)
               else None))"
| "parseMembers 0 s acc = None"
| "parseMembers (Suc k) s acc =
     (case dropWhile isJsonWs s of
        [] \<Rightarrow> None
      | c # cs \<Rightarrow>
          if c = CHR 0x22 then
            (case parseStringBody cs of
               None \<Rightarrow> None
             | Some (key, r) \<Rightarrow>
                 (case dropWhile isJsonWs r of
                    [] \<Rightarrow> None
                  | d # ds \<Rightarrow>
                      if d = CHR '':'' then
                        (case parseValue k ds of
                           None \<Rightarrow> None
                         | Some (v, r2) \<Rightarrow>
                             (case dropWhile isJsonWs r2 of
                                [] \<Rightarrow> None
                              | e # es \<Rightarrow>
                                  if e = CHR '','' then parseMembers k es (objSet key v acc)
                                  else if e = CHR ''}'' then Some (JObj (objSet key v acc), es)
                                  else None))
                      else None))
          else None)"

definition JSON_parse :: "string \<Rightarrow> json option" where
  \<comment> \<open>\<open>JSON.parse(text)\<close>; \<open>None\<close> is the SyntaxError it throws\<close>
  "JSON_parse s =
     (case parseValue (2 * length s + 2) s of
        None \<Rightarrow> None
      | Some (v, r) \<Rightarrow> if dropWhile isJsonWs r = [] then Some v else None)"

fun join :: "string \<Rightarrow> string list \<Rightarrow> string" where
  "join sep [] = []"
| "join sep [x] = x"
| "join sep (x # y # zs) = x @ sep @ join sep (y # zs)"

section \<open>JavaScript values\<close>

text \<open>
  What the callers of \<open>extractJSON\<close> do with its result: truthiness, property
  reads, \<open>Number(v)\<close> and \<open>String(v)\<close>. \<open>getProp v k\<close> is the read \<open>v.k\<close>:
  a TypeError on \<open>null\<close>, otherwise the own property, \<open>None\<close> for \<open>undefined\<close>
  (the keys the source reads are never inherited ones, but for \<open>length\<close>).
\<close>

datatype jsnum = Num rat | NaN | PosInfinity | NegInfinity

definition truthy :: "json \<Rightarrow> bool" where
  "truthy v =
     (case v of
        JNull \<Rightarrow> False
      | JBool b \<Rightarrow> b
      | JNum n \<Rightarrow> n \<noteq> 0
      | JStr str \<Rightarrow> str \<noteq> []
      | JArr xs \<Rightarrow> True
      | JObj ps \<Rightarrow> True)"

definition getProp :: "json \<Rightarrow> string \<Rightarrow> error + json option" where
  "getProp v k =
     (case v of
        JNull \<Rightarrow> Inl (Error (''Cannot read properties of null (reading '' @ [CHR 0x27] @ k @ [CHR 0x27] @ '')''))
      | JBool b \<Rightarrow> Inr None
      | JNum n \<Rightarrow> Inr None
      | JStr str \<Rightarrow> Inr (if k = ''length'' then Some (JNum (of_nat (length str))) else None)
      | JArr xs \<Rightarrow> Inr (if k = ''length'' then Some (JNum (of_nat (length xs))) else None)
      | JObj ps \<Rightarrow> Inr (map_of ps k))"

definition nullish :: "json option \<Rightarrow> bool" where
  \<comment> \<open>\<open>undefined\<close> or \<open>null\<close>: what \<open>??\<close> and \<open>?.\<close> test\<close>
  "nullish v = (v = None \<or> v = Some JNull)"

fun sequenceE :: "(error + 'a) list \<Rightarrow> error + 'a list" where
  \<comment> \<open>the results of a \<open>map\<close> whose callback may throw: the first exception wins\<close>
  "sequenceE [] = Inr []"
| "sequenceE (Inl e # rs) = Inl e"
| "sequenceE (Inr v # rs) = (case sequenceE rs of Inl e \<Rightarrow> Inl e | Inr vs \<Rightarrow> Inr (v # vs))"

text \<open>
  \<open>String(v)\<close>. \<open>nts\<close> is the runtime's Number-to-string conversion. An array is
  joined with commas, \<open>null\<close> elements as empty strings; an object prints as
  \<open>[object Object]\<close>, unless it has an own property \<open>toString\<close>, which parsed JSON
  never makes callable: then the conversion throws a TypeError.
\<close>

fun jsString :: "(rat \<Rightarrow> string) \<Rightarrow> json \<Rightarrow> error + string" where
  "jsString nts JNull = Inr ''null''"
| "jsString nts (JBool b) = Inr (if b then ''true'' else ''false'')"
| "jsString nts (JNum n) = Inr (nts n)"
| "jsString nts (JStr str) = Inr str"
| "jsString nts (JArr xs) =
     (case sequenceE (map (\<lambda>x. if x = JNull then Inr [] else jsString nts x) xs) of
        Inl e \<Rightarrow> Inl e
      | Inr strs \<Rightarrow> Inr (join '','' strs))"
| "jsString nts (JObj ps) =
     (if map_of ps ''toString'' \<noteq> None then Inl (Error ''Cannot convert object to primitive value'')
      else Inr ''[object Object]'')"

definition jsNumber :: "(rat \<Rightarrow> string) \<Rightarrow> (string \<Rightarrow> jsnum) \<Rightarrow> json \<Rightarrow> error + jsnum" where
  \<comment> \<open>\<open>Number(v)\<close>; \<open>stn\<close> is the runtime's string-to-Number conversion\<close>
  "jsNumber nts stn v =
     (case v of
        JNull \<Rightarrow> Inr (Num 0)
      | JBool b \<Rightarrow> Inr (Num (if b then 1 else 0))
      | JNum n \<Rightarrow> Inr (Num n)
      | JStr str \<Rightarrow> Inr (stn str)
      | JArr xs \<Rightarrow> (case jsString nts v of Inl e \<Rightarrow> Inl e | Inr str \<Rightarrow> Inr (stn str))
      | JObj ps \<Rightarrow> (case jsString nts v of Inl e \<Rightarrow> Inl e | Inr str \<Rightarrow> Inr (stn str)))"

definition printOpt :: "string option \<Rightarrow> string" where
  \<comment> \<open>a template literal prints a missing value as \<open>undefined\<close>\<close>
  "printOpt v = (case v of None \<Rightarrow> ''undefined'' | Some str \<Rightarrow> str)"

definition printBoolOpt :: "bool option \<Rightarrow> string" where
  "printBoolOpt v = (case v of None \<Rightarrow> ''undefined'' | Some b \<Rightarrow> if b then ''true'' else ''false'')"

section \<open>llmClient.js: cleanupJSON, deepCleanJSON, extractJSON\<close>

definition isKeyChar :: "char \<Rightarrow> bool" where
  \<comment> \<open>\<open>[a-zA-Z0-9_$]\<close>\<close>
  "isKeyChar c =
     (let n = (of_char c :: nat)
      in (97 \<le> n \<and> n \<le> 122) \<or> (65 \<le> n \<and> n \<le> 90) \<or> (48 \<le> n \<and> n \<le> 57)
         \<or> c = CHR ''_'' \<or> c = CHR ''$'')"

definition isQuote :: "char \<Rightarrow> bool" where
  \<comment> \<open>\<open>['"]\<close>\<close>
  "isQuote c = (c = CHR 0x27 \<or> c = CHR 0x22)"

definition oneOf :: "string \<Rightarrow> char \<Rightarrow> bool" where
  "oneOf cs c = (c \<in> set cs)"

definition noneOf :: "string \<Rightarrow> char \<Rightarrow> bool" where
  "noneOf cs c = (c \<notin> set cs)"

definition rxTrailingComma :: rx where
  \<comment> \<open>\<open>/,\s*([}\]])/g\<close>\<close>
  "rxTrailingComma = Cat (Lit '','') (Cat (Star isWhiteSpace) (Grp 1 (Cls (oneOf ''}]''))))"

definition rxEllipsis :: rx where
  \<comment> \<open>\<open>/\.\.\.+/g\<close>\<close>
  "rxEllipsis = Cat (Lit ''..'') (Plus (oneOf ''.''))"

definition rxBareKey :: rx where
  \<comment> \<open>\<open>/([{,]\s*)([a-zA-Z0-9_$]+)\s*:/g\<close>\<close>
  "rxBareKey =
     Cat (Grp 1 (Cat (Cls (oneOf ''{,'')) (Star isWhiteSpace)))
       (Cat (Grp 2 (Plus isKeyChar)) (Cat (Star isWhiteSpace) (Lit '':'')))"

definition rxSingleQuote :: rx where
  \<comment> \<open>\<open>/(?<!\\)'/g\<close>\<close>
  "rxSingleQuote = Cat (NotBehind (oneOf [CHR 0x5C])) (Lit [CHR 0x27])"

definition rxArrayTrailingComma :: rx where
  \<comment> \<open>\<open>/(\[\s*|,\s*)\s*,\s*([\]\}])/g\<close>\<close>
  "rxArrayTrailingComma =
     Cat (Grp 1 (Alt (Cat (Lit ''['') (Star isWhiteSpace)) (Cat (Lit '','') (Star isWhiteSpace))))
       (Cat (Star isWhiteSpace)
          (Cat (Lit '','') (Cat (Star isWhiteSpace) (Grp 2 (Cls (oneOf '']}''))))))"

definition rxObjectGap :: rx where
  \<comment> \<open>\<open>/}\s*{/g\<close>\<close>
  "rxObjectGap = Cat (Lit ''}'') (Cat (Star isWhiteSpace) (Lit ''{''))"

definition rxArrayGap :: rx where
  \<comment> \<open>\<open>/]\s*\[/g\<close>\<close>
  "rxArrayGap = Cat (Lit '']'') (Cat (Star isWhiteSpace) (Lit ''[''))"

definition arrayRegex :: rx where
  \<comment> \<open>\<open>/\[([^\[\]]*?)\]/g\<close>\<close>
  "arrayRegex = Cat (Lit ''['') (Cat (Grp 1 (StarLazy (noneOf ''[]''))) (Lit '']''))"

definition rxStringGap :: rx where
  \<comment> \<open>\<open>/(['"])\s+(['"])/g\<close>\<close>
  "rxStringGap = Cat (Grp 1 (Cls isQuote)) (Cat (Plus isWhiteSpace) (Grp 2 (Cls isQuote)))"

definition isItemStart :: "char \<Rightarrow> bool" where
  \<comment> \<open>\<open>[{['"tf]\<close>\<close>
  "isItemStart c = (c \<in> set ''{[tf'' \<or> isQuote c)"

definition rxTrueGap :: rx where
  \<comment> \<open>\<open>/true\s+(?=[{['"tf])/g\<close>\<close>
  "rxTrueGap = Cat (Lit ''true'') (Cat (Plus isWhiteSpace) (Ahead (Cls isItemStart)))"

definition rxFalseGap :: rx where
  \<comment> \<open>\<open>/false\s+(?=[{['"tf])/g\<close>\<close>
  "rxFalseGap = Cat (Lit ''false'') (Cat (Plus isWhiteSpace) (Ahead (Cls isItemStart)))"

definition rxNumberGap :: rx where
  \<comment> \<open>\<open>/(\d+)\s+(?=[{['"tf\d])/g\<close>\<close>
  "rxNumberGap =
     Cat (Grp 1 (Plus isDigit))
       (Cat (Plus isWhiteSpace) (Ahead (Cls (\<lambda>c. isItemStart c \<or> isDigit c))))"

definition fixArrayContent :: "string \<Rightarrow> string" where
  \<comment> \<open>\<open>fixedArrayContent\<close>: the four replacements on the text between the brackets\<close>
  "fixArrayContent arrayContent =
     replaceAll rxNumberGap 1 ''$1, ''
       (replaceAll rxFalseGap 0 ''false, ''
          (replaceAll rxTrueGap 0 ''true, ''
             (replaceAll rxStringGap 2 ''$1, $2'' arrayContent)))"

text \<open>
  The \<open>while ((match = arrayRegex.exec(cleaned)) !== null)\<close> loop of
  \<open>cleanupJSON\<close>. \<open>arrayRegex\<close> keeps its \<open>lastIndex\<close> between the calls while
  \<open>cleaned\<close> is replaced inside the loop. The loop may run forever, so the function
  is partial: \<open>None\<close> means that it does not return.
\<close>

partial_function (option) fixArraysLoop :: "string \<Rightarrow> nat \<Rightarrow> string option" where
  "fixArraysLoop cleaned lastIndex =
     (case rx_exec arrayRegex cleaned lastIndex of
        None \<Rightarrow> Some cleaned
      | Some (idx, n, c) \<Rightarrow>
          if cap c 1 \<noteq> [] then
            fixArraysLoop
              (replaceStr cleaned (''['' @ cap c 1 @ '']'') (''['' @ fixArrayContent (cap c 1) @ '']''))
              (idx + n)
          else fixArraysLoop cleaned (idx + n))"

declare fixArraysLoop.simps [code]

definition cleanupReplacements :: "string \<Rightarrow> string" where
  \<comment> \<open>the seven replacements of \<open>cleanupJSON\<close> before its loop\<close>
  "cleanupReplacements txt =
     replaceAll rxArrayGap 0 ''], [''
       (replaceAll rxObjectGap 0 ''}, {''
          (replaceAll rxArrayTrailingComma 2 ''$1$2''
             (replaceAll rxSingleQuote 0 [CHR 0x22]
                (replaceAll rxBareKey 2 (''$1'' @ [CHR 0x22] @ ''$2'' @ [CHR 0x22] @ '':'')
                   (replaceAll rxEllipsis 0 [CHR 0x22, CHR 0x22]
                      (replaceAll rxTrailingComma 1 ''$1'' txt))))))"

definition cleanupJSON :: "string \<Rightarrow> string option" where
  "cleanupJSON txt = (if txt = [] then Some txt else fixArraysLoop (cleanupReplacements txt) 0)"

function splitWsAcc :: "string \<Rightarrow> string \<Rightarrow> string list" where
  "splitWsAcc cur [] = [rev cur]"
| "splitWsAcc cur (x # xs) =
     (if isWhiteSpace x then rev cur # splitWsAcc [] (dropWhile isWhiteSpace xs)
      else splitWsAcc (x # cur) xs)"
  by pat_completeness auto
termination
  by (relation "measure (\<lambda>(cur, s). length s)")
     (auto simp: length_dropWhile_le less_Suc_eq_le)

definition splitWs :: "string \<Rightarrow> string list" where
  \<comment> \<open>\<open>s.split(/\s+/)\<close>\<close>
  "splitWs s = splitWsAcc [] s"

definition rxBareList :: rx where
  \<comment> \<open>\<open>/"([a-zA-Z0-9_$]+)"\s*:\s*([^\[{][^,}\]]*?)(?=[,}])/g\<close>\<close>
  "rxBareList =
     Cat (Lit [CHR 0x22])
       (Cat (Grp 1 (Plus isKeyChar))
          (Cat (Lit [CHR 0x22])
             (Cat (Star isWhiteSpace)
                (Cat (Lit '':'')
                   (Cat (Star isWhiteSpace)
                      (Cat (Grp 2 (Cat (Cls (noneOf ''[{'')) (StarLazy (noneOf '',}]''))))
                         (Ahead (Cls (oneOf '',}'')))))))))"

definition fixArrays :: "string \<Rightarrow> string" where
  "fixArrays str =
     rx_replace rxBareList
       (\<lambda>b mt a c.
          if length (splitWs (trim (cap c 2))) > 1
             \<and> \<not> includes_str (cap c 2) ''['' \<and> \<not> includes_str (cap c 2) ''{''
          then [CHR 0x22] @ cap c 1 @ [CHR 0x22] @ '': [''
               @ join '', '' (map (\<lambda>item. [CHR 0x22] @ filter (\<lambda>ch. \<not> isQuote ch) item @ [CHR 0x22])
                                  (splitWs (trim (cap c 2))))
               @ '']''
          else mt)
       [] str"

definition countChar :: "char \<Rightarrow> string \<Rightarrow> nat" where
  "countChar ch str = length (filter (\<lambda>c. c = ch) str)"

definition balanceBrackets :: "string \<Rightarrow> string" where
  "balanceBrackets str =
     (let openBraces = countChar (CHR ''{'') str; closeBraces = countChar (CHR ''}'') str;
          openBrackets = countChar (CHR ''['') str; closeBrackets = countChar (CHR '']'') str;
          result = str @ replicate (openBraces - closeBraces) (CHR ''}'')
                       @ replicate (openBrackets - closeBrackets) (CHR '']'')
      in if closeBraces > openBraces \<or> closeBrackets > openBrackets then str else result)"

definition deepCleanJSON :: "string \<Rightarrow> string option" where
  "deepCleanJSON txt =
     (if txt = [] then Some txt
      else map_option (\<lambda>cleaned. balanceBrackets (fixArrays cleaned)) (cleanupJSON txt))"

definition rxTripleFence :: rx where
  \<comment> \<open>\<open>/```(?:json)?([\s\S]*?)```/i\<close>\<close>
  "rxTripleFence =
     Cat (Lit [CHR 0x60, CHR 0x60, CHR 0x60])
       (Cat (Opt (LitI ''json''))
          (Cat (Grp 1 (StarLazy isAnyChar)) (Lit [CHR 0x60, CHR 0x60, CHR 0x60])))"

definition rxSingleFence :: rx where
  \<comment> \<open>\<open>/`([\s\S]*?)`/\<close>\<close>
  "rxSingleFence = Cat (Lit [CHR 0x60]) (Cat (Grp 1 (StarLazy isAnyChar)) (Lit [CHR 0x60]))"

definition jsonPattern :: rx where
  \<comment> \<open>\<open>/{[\s\S]*?}/\<close>\<close>
  "jsonPattern = Cat (Lit ''{'') (Cat (StarLazy isAnyChar) (Lit ''}''))"

definition rxObjectLiteral :: rx where
  \<comment> \<open>\<open>/^\s*\{[\s\S]*\}\s*$/\<close>\<close>
  "rxObjectLiteral =
     Cat Bol (Cat (Star isWhiteSpace)
       (Cat (Lit ''{'') (Cat (Star isAnyChar) (Cat (Lit ''}'') (Cat (Star isWhiteSpace) Eol)))))"

definition rxUnsafe :: rx where
  \<comment> \<open>\<open>/(function|eval|setTimeout|setInterval|new\s+Function)/\<close>\<close>
  "rxUnsafe =
     Grp 1 (Alt (Lit ''function'') (Alt (Lit ''eval'') (Alt (Lit ''setTimeout'')
       (Alt (Lit ''setInterval'') (Cat (Lit ''new'') (Cat (Plus isWhiteSpace) (Lit ''Function'')))))))"

definition fencedContent :: "string \<Rightarrow> string" where
  \<comment> \<open>\<open>jsonContent\<close>: the text inside triple or single backticks, or all of \<open>text\<close>\<close>
  "fencedContent txt =
     (let single = (case rx_match rxSingleFence txt of
                      None \<Rightarrow> txt
                    | Some (i, n, c) \<Rightarrow> if cap c 1 \<noteq> [] then trim (cap c 1) else txt)
      in case rx_match rxTripleFence txt of
           None \<Rightarrow> single
         | Some (i, n, c) \<Rightarrow> if cap c 1 \<noteq> [] then trim (cap c 1) else single)"

definition safeJson :: "string \<Rightarrow> string" where
  "safeJson jsonContent =
     replaceAll rxTrailingComma 1 ''$1''
       (replaceAll rxSingleQuote 0 [CHR 0x22]
          (replaceAll rxBareKey 2 (''$1'' @ [CHR 0x22] @ ''$2'' @ [CHR 0x22] @ '':'') jsonContent))"

definition method5 :: "string \<Rightarrow> json" where
  \<comment> \<open>Method 5 and the final \<open>return null\<close>\<close>
  "method5 jsonContent =
     (if rx_test rxObjectLiteral jsonContent \<and> \<not> rx_test rxUnsafe jsonContent then
        (case JSON_parse (safeJson jsonContent) of Some v \<Rightarrow> v | None \<Rightarrow> JNull)
      else JNull)"

definition method4 :: "string \<Rightarrow> string \<Rightarrow> json option" where
  \<comment> \<open>Method 4, then Method 5\<close>
  "method4 txt jsonContent =
     (case rx_match jsonPattern txt of
        None \<Rightarrow> Some (method5 jsonContent)
      | Some (i, n, c) \<Rightarrow>
          (case deepCleanJSON (take n (drop i txt)) of
             None \<Rightarrow> None
           | Some extracted \<Rightarrow>
               (case JSON_parse extracted of
                  Some v \<Rightarrow> Some v
                | None \<Rightarrow> Some (method5 jsonContent))))"

text \<open>
  \<open>extractJSON text\<close>: \<open>Some v\<close> when the call returns \<open>v\<close> (\<open>JNull\<close> for
  \<open>null\<close>), \<open>None\<close> when it does not return. Every \<open>JSON.parse\<close> sits in its own
  \<open>try\<close>, so a SyntaxError moves on to the next method.
\<close>

definition extractJSON :: "string \<Rightarrow> json option" where
  "extractJSON txt =
     (if txt = [] then Some JNull
      else
        (let jsonContent = fencedContent txt
         in case JSON_parse jsonContent of
              Some v \<Rightarrow> Some v
            | None \<Rightarrow>
                (case cleanupJSON jsonContent of
                   None \<Rightarrow> None
                 | Some cleaned \<Rightarrow>
                     (case JSON_parse cleaned of
                        Some v \<Rightarrow> Some v
                      | None \<Rightarrow>
                          (case deepCleanJSON jsonContent of
                             None \<Rightarrow> None
                           | Some deepCleaned \<Rightarrow>
                               (case JSON_parse deepCleaned of
                                  Some v \<Rightarrow> Some v
                                | None \<Rightarrow> method4 txt jsonContent))))))"

section \<open>Data model of the research agent (researchAgentService.js)\<close>

record heading =
  level :: nat
  htext :: string

text \<open>
  The record returned by \<open>scrapeAndSummarize\<close>. The field \<open>error\<close> is absent
  (\<open>None\<close>) on the success path and holds \<open>error.message\<close> on the failure path.
\<close>

record scraped_content =
  sc_url :: string
  sc_title :: string
  content :: string
  summary :: string
  headers :: "heading list"
  wordCount :: nat
  scrapedAt :: string
  error :: "string option"

text \<open>
  A search result as \<open>performWebSearch\<close> and \<open>getCuratedSources\<close> build it.
  Scores are JavaScript numbers; they are modelled as exact rationals.
\<close>

record search_result =
  title :: string
  url :: string
  snippet :: string
  source :: string
  relevanceScore :: rat

text \<open>\<open>{...result, scrapedContent: scraped, qualityScore: ...}\<close>\<close>

record ranked_resource = search_result +
  scrapedContent :: "scraped_content option"
  qualityScore :: rat

section \<open>rankResources\<close>

definition trustedDomains :: "string list" where
  "trustedDomains =
     [''mozilla.org'', ''python.org'', ''react.dev'', ''angular.io'',
      ''coursera.org'', ''edx.org'', ''khanacademy.org'', ''freecodecamp.org'',
      ''github.com'', ''stackoverflow.com'', ''medium.com'',
      ''harvard.edu'', ''mit.edu'', ''stanford.edu'']"

definition isTrusted :: "string \<Rightarrow> bool" where
  \<comment> \<open>\<open>trustedDomains.some(domain => result.url.includes(domain))\<close>\<close>
  "isTrusted u = list_ex (\<lambda>domain. includes_str u domain) trustedDomains"

text \<open>
  The value of the local variable \<open>qualityScore\<close> of the \<open>map\<close> callback just
  before \<open>Math.min(qualityScore, 1.0)\<close> is applied. \<open>result.relevanceScore || 0.5\<close>
  replaces a falsy score (0) by 0.5.
\<close>

definition qualityBeforeClamp :: "'a search_result_scheme \<Rightarrow> scraped_content option \<Rightarrow> rat" where
  "qualityBeforeClamp result scraped =
     (let q0 = (if relevanceScore result = 0 then 5 / 10 else relevanceScore result);
          q3 = (case scraped of
                  None \<Rightarrow> q0
                | Some sc \<Rightarrow>
                    (let q1 = (if wordCount sc > 500 then q0 + 1 / 10 else q0);
                         q2 = (if length (headers sc) > 3 then q1 + 1 / 10 else q1)
                     in if length (summary sc) > 100 then q2 + 1 / 10 else q2))
      in if isTrusted (url result) then q3 + 2 / 10 else q3)"

definition rankOne :: "search_result \<Rightarrow> scraped_content list \<Rightarrow> ranked_resource" where
  "rankOne result scrapedContents =
     (let scraped = find (\<lambda>c. sc_url c = url result) scrapedContents
      in search_result.extend result
           \<lparr> scrapedContent = scraped,
             qualityScore = min (qualityBeforeClamp result scraped) 1 \<rparr>)"

text \<open>
  \<open>resources.sort((a, b) => b.qualityScore - a.qualityScore)\<close>: a stable sort,
  descending by \<open>qualityScore\<close>.
\<close>

definition rankResources :: "search_result list \<Rightarrow> scraped_content list \<Rightarrow> ranked_resource list" where
  "rankResources searchResults scrapedContents =
     sort_key (\<lambda>r. - qualityScore r) (map (\<lambda>result. rankOne result scrapedContents) searchResults)"


subsection \<open>Example inputs for rankResources\<close>

definition plainResult :: search_result where
  "plainResult = \<lparr> title = ''A'', url = ''a.io/x'', snippet = ''s'', source = ''Web'',
                    relevanceScore = 7 / 10 \<rparr>"

definition trustedResult :: search_result where
  "trustedResult = plainResult \<lparr> url := ''mit.edu/x'' \<rparr>"

definition thinScrape :: scraped_content where
  "thinScrape = \<lparr> sc_url = ''a.io/x'', sc_title = ''A'', content = ''c'', summary = ''s'',
                   headers = [], wordCount = 100, scrapedAt = ''t'', error = None \<rparr>"

definition richScrape :: scraped_content where
  "richScrape = thinScrape \<lparr> sc_url := ''mit.edu/x'', wordCount := 600,
       headers := replicate 4 \<lparr> level = 2, htext = ''h'' \<rparr> \<rparr>"

definition threeHeadingScrape :: scraped_content where
  "threeHeadingScrape = thinScrape \<lparr> headers := replicate 3 \<lparr> level = 2, htext = ''h'' \<rparr> \<rparr>"

definition zeroScoreResult :: search_result where
  "zeroScoreResult = plainResult \<lparr> relevanceScore := 0 \<rparr>"

section \<open>The outside world\<close>

text \<open>
  What the code reads from outside is a parameter of the model.
  \<^item> \<open>httpGetPage u\<close>: \<open>axios.get(u)\<close> followed by \<open>cheerio.load\<close> and the removal
    of script, style, nav, header, footer and advertisement elements: either an exception
    (network error, timeout, parse error) or the parsed page. Of a page the code reads,
    for a selector, the number of matched elements and their text
    (\<open>$(selector).length\<close>, \<open>$(selector).text()\<close>), and the \<open>h1\<close>..\<open>h4\<close>
    elements in document order, each with its level (\<open>parseInt(el.tagName.charAt(1))\<close>)
    and text.
  \<^item> \<open>httpGetSearch q\<close>: the request to the search API for the query text \<open>q\<close>: an
    exception (also one raised while the payload is read) or the payload. Absent fields
    of the payload are empty strings; \<open>RelatedTopics\<close> is \<open>None\<close> when it is missing
    or not an array.
  \<^item> \<open>chat p\<close>: \<open>chat([{role: 'user', content: p}])\<close> of llmClient: the reply text,
    or the exception it throws.
  \<^item> \<open>now\<close>: \<open>new Date().toISOString()\<close>.
  \<^item> \<open>numberToString\<close>, \<open>stringToNumber\<close>: the conversions of the runtime between
    numbers and strings.
  \<^item> \<open>findProfile\<close>, \<open>findBank\<close>: \<open>UserProfile.findOne({userId}).lean()\<close> and
    \<open>SkillMemoryBank.findOne({userId}).lean()\<close>: an exception, or the document
    (\<open>None\<close> for \<open>null\<close>; of the memory bank its \<open>concepts\<close>).
  \<^item> \<open>writeError userId steps\<close>: the exception \<open>Roadmap.findOneAndUpdate\<close> throws for
    this user and these steps, if it throws. Of each step the database layer sees the day,
    the topic and the lesson ids: the fields of the step schema of models/Roadmap.js. The
    roadmaps themselves are kept in an explicit store.
\<close>

record page =
  selectText :: "string \<Rightarrow> nat \<times> string"
  headingElems :: "(nat \<times> string) list"

record ddg_topic =
  FirstURL :: string
  Text :: string

record ddg_data =
  AbstractText :: string
  AbstractURL :: string
  Heading :: string
  AbstractSource :: string
  RelatedTopics :: "ddg_topic list option"

record profile =
  pf_skill :: "string option"
  pf_level :: "string option"
  pf_dailyTime :: "string option"
  pf_goal :: "string option"

record concept =
  cp_topic :: string
  strengthLevel :: nat

record world =
  httpGetPage :: "string \<Rightarrow> error + page"
  httpGetSearch :: "string \<Rightarrow> error + ddg_data"
  chat :: "string \<Rightarrow> error + string"
  now :: string
  numberToString :: "rat \<Rightarrow> string"
  stringToNumber :: "string \<Rightarrow> jsnum"
  findProfile :: "string \<Rightarrow> error + profile option"
  findBank :: "string \<Rightarrow> error + concept list option"
  writeError :: "string \<Rightarrow> (jsnum \<times> string \<times> string list) list \<Rightarrow> error option"

section \<open>Arrays and strings: slice, split\<close>

definition sliceTo :: "'a list \<Rightarrow> int \<Rightarrow> 'a list" where
  \<comment> \<open>\<open>xs.slice(0, e)\<close>: a negative end counts from the end of the array\<close>
  "sliceTo xs e = (if e < 0 then take (nat (int (length xs) + e)) xs else take (nat e) xs)"

fun splitAcc :: "string \<Rightarrow> string \<Rightarrow> string \<Rightarrow> string list" where
  "splitAcc sep cur [] = [rev cur]"
| "splitAcc sep cur (x # xs) =
     (if startsWith (x # xs) sep then rev cur # splitAcc sep [] (drop (length sep - 1) xs)
      else splitAcc sep (x # cur) xs)"

definition split :: "string \<Rightarrow> string \<Rightarrow> string list" where
  \<comment> \<open>\<open>s.split(sep)\<close> for a non-empty separator string\<close>
  "split s sep = splitAcc sep [] s"

section \<open>performWebSearch and getCuratedSources\<close>

definition mkResult :: "string \<Rightarrow> string \<Rightarrow> string \<Rightarrow> string \<Rightarrow> rat \<Rightarrow> search_result" where
  "mkResult t u sn so sc = \<lparr> title = t, url = u, snippet = sn, source = so, relevanceScore = sc \<rparr>"

definition getCuratedSources :: "string \<Rightarrow> search_result list" where
  "getCuratedSources query =
     (let lowerQuery = toLowerCase query
      in (if includes_str lowerQuery ''javascript'' \<or> includes_str lowerQuery ''js'' then
            [mkResult ''MDN JavaScript Guide''
               ''https://developer.mozilla.org/en-US/docs/Web/JavaScript/Guide''
               ''Comprehensive JavaScript guide covering fundamentals to advanced topics''
               ''MDN'' (95 / 100),
             mkResult ''JavaScript.info Modern Tutorial''
               ''https://javascript.info/''
               ''Modern JavaScript tutorial covering ES6+, async programming, and best practices''
               ''JavaScript.info'' (9 / 10)]
          else [])
       @ (if includes_str lowerQuery ''python'' then
            [mkResult ''Python Official Tutorial''
               ''https://docs.python.org/3/tutorial/''
               ''Official Python tutorial covering syntax, data structures, and standard library''
               ''Python.org'' (95 / 100),
             mkResult ''Real Python Learning Path''
               ''https://realpython.com/learning-paths/''
               ''Structured learning paths for Python development from beginner to advanced''
               ''Real Python'' (9 / 10)]
          else [])
       @ (if includes_str lowerQuery ''data science'' \<or> includes_str lowerQuery ''machine learning'' then
            [mkResult ''Coursera Data Science Specialization''
               ''https://www.coursera.org/specializations/jhu-data-science''
               ''Johns Hopkins Data Science specialization covering R, statistics, and machine learning''
               ''Coursera'' (9 / 10),
             mkResult ''Kaggle Learn''
               ''https://www.kaggle.com/learn''
               ''Free micro-courses on data science, machine learning, and AI topics''
               ''Kaggle'' (85 / 100)]
          else [])
       @ (if includes_str lowerQuery ''react'' \<or> includes_str lowerQuery ''frontend'' then
            [mkResult ''React Official Documentation''
               ''https://react.dev/learn''
               ''Official React documentation with interactive examples and best practices''
               ''React.dev'' (95 / 100),
             mkResult ''Frontend Masters Learning Paths''
               ''https://frontendmasters.com/learn/''
               ''Structured learning paths for frontend development and modern frameworks''
               ''Frontend Masters'' (85 / 100)]
          else [])
       @ (if includes_str lowerQuery ''leadership'' \<or> includes_str lowerQuery ''management'' then
            [mkResult ''Harvard Business Review Leadership''
               ''https://hbr.org/topic/leadership''
               ''Leadership insights, case studies, and management best practices''
               ''Harvard Business Review'' (9 / 10),
             mkResult ''LinkedIn Learning Leadership Courses''
               ''https://www.linkedin.com/learning/topics/leadership''
               ''Professional leadership development courses and skill assessments''
               ''LinkedIn Learning'' (8 / 10)]
          else []))"

definition curatedKeywords :: "string list" where
  \<comment> \<open>the keyword substrings \<open>getCuratedSources\<close> tests for\<close>
  "curatedKeywords =
     [''javascript'', ''js'', ''python'', ''data science'', ''machine learning'',
      ''react'', ''frontend'', ''leadership'', ''management'']"

definition instantAnswer :: "ddg_data \<Rightarrow> string \<Rightarrow> search_result list" where
  \<comment> \<open>the instant answer, when \<open>AbstractText\<close> and \<open>AbstractURL\<close> are both truthy\<close>
  "instantAnswer d query =
     (if AbstractText d \<noteq> [] \<and> AbstractURL d \<noteq> [] then
        [mkResult (if Heading d \<noteq> [] then Heading d else query) (AbstractURL d) (AbstractText d)
           (if AbstractSource d \<noteq> [] then AbstractSource d else ''DuckDuckGo'') (9 / 10)]
      else [])"

definition topicResult :: "ddg_topic \<Rightarrow> search_result" where
  "topicResult topic =
     mkResult (let h = hd (split (Text topic) '' - '') in if h \<noteq> [] then h else take 100 (Text topic))
       (FirstURL topic) (Text topic) ''Wikipedia'' (7 / 10)"

definition liveResults :: "ddg_data \<Rightarrow> string \<Rightarrow> int \<Rightarrow> search_result list" where
  \<comment> \<open>\<open>results\<close> after the instant answer and the related topics have been pushed\<close>
  "liveResults d query maxResults =
     (let results = instantAnswer d query
      in case RelatedTopics d of
           None \<Rightarrow> results
         | Some topics \<Rightarrow>
             results @ map topicResult
               (filter (\<lambda>topic. FirstURL topic \<noteq> [] \<and> Text topic \<noteq> [])
                  (sliceTo topics (maxResults - int (length results)))))"

definition performWebSearch :: "world \<Rightarrow> string \<Rightarrow> int \<Rightarrow> error + search_result list" where
  "performWebSearch w query maxResults =
     (case httpGetSearch w (query @ '' roadmap guide tutorial'') of
        Inl e \<Rightarrow> Inr (getCuratedSources query)
      | Inr d \<Rightarrow>
          (let results = liveResults d query maxResults;
               results' = (if length results < 3
                           then results @ sliceTo (getCuratedSources query)
                                            (maxResults - int (length results))
                           else results)
           in Inr (sliceTo results' maxResults)))"

section \<open>scrapeAndSummarize and summarizeContent\<close>

definition summaryPrompt :: "string \<Rightarrow> string \<Rightarrow> string" where
  "summaryPrompt txt ttl =
     ''Summarize the following content about '' @ [CHR 0x22] @ ttl @ [CHR 0x22]
     @ '' in 2-3 sentences, focusing on key learning points and actionable insights:''
     @ [CHR 0x0A, CHR 0x0A] @ take 2000 txt @ [CHR 0x0A, CHR 0x0A] @ ''Summary:''"

definition summarizeContent :: "world \<Rightarrow> string \<Rightarrow> string \<Rightarrow> error + string" where
  "summarizeContent w txt ttl =
     (if txt = [] \<or> length txt < 50 then Inr (ttl @ '': Content not available for summary.'')
      else case chat w (summaryPrompt txt ttl) of
             Inl e \<Rightarrow> Inr (ttl @ '': Summary generation failed.'')
           | Inr reply \<Rightarrow>
               Inr (if trim reply \<noteq> [] then trim reply else ttl @ '': Summary not available.''))"

definition contentSelectors :: "string list" where
  "contentSelectors =
     [''main'', ''article'', ''.content'', ''.post-content'',
      ''.entry-content'', ''.markdown-body'', ''.wiki-content'',
      ''#content'', ''.main-content'', ''body'']"

fun pickContent :: "page \<Rightarrow> string list \<Rightarrow> string" where
  \<comment> \<open>the \<open>for\<close> loop over the selectors, with its \<open>break\<close>\<close>
  "pickContent pg [] = []"
| "pickContent pg (selector # rest) =
     (case selectText pg selector of
        (n, t) \<Rightarrow> if n \<noteq> 0 \<and> length (trim t) > 100 then trim t else pickContent pg rest)"

definition extractedBody :: "page \<Rightarrow> string" where
  \<comment> \<open>\<open>content\<close> before it is cleaned and truncated\<close>
  "extractedBody pg =
     (let txt = pickContent pg contentSelectors
      in if txt = [] then trim (snd (selectText pg ''body'')) else txt)"

definition isNewline :: "char \<Rightarrow> bool" where
  "isNewline c = (c = CHR 0x0A)"

definition cleanContent :: "string \<Rightarrow> string" where
  \<comment> \<open>\<open>content.replace(/\s+/g, ' ').replace(/\n+/g, '\n').substring(0, 3000)\<close>\<close>
  "cleanContent txt =
     take 3000 (replaceAll (Plus isNewline) 0 [CHR 0x0A] (replaceAll (Plus isWhiteSpace) 0 '' '' txt))"

definition extractHeaders :: "page \<Rightarrow> heading list" where
  "extractHeaders pg =
     map (\<lambda>(l, t). \<lparr> level = l, htext = trim t \<rparr>)
       (filter (\<lambda>(l, t). trim t \<noteq> [] \<and> length (trim t) < 200) (headingElems pg))"

definition scrapeTry :: "world \<Rightarrow> string \<Rightarrow> string \<Rightarrow> error + scraped_content" where
  \<comment> \<open>the \<open>try\<close> block of \<open>scrapeAndSummarize\<close>\<close>
  "scrapeTry w u t =
     (case httpGetPage w u of
        Inl e \<Rightarrow> Inl e
      | Inr pg \<Rightarrow>
          (let txt = cleanContent (extractedBody pg);
               hs = extractHeaders pg
           in case summarizeContent w txt t of
                Inl e \<Rightarrow> Inl e
              | Inr sm \<Rightarrow>
                  Inr \<lparr> sc_url = u, sc_title = t, content = take 1000 txt, summary = sm,
                        headers = take 10 hs, wordCount = length (split txt '' ''),
                        scrapedAt = now w, error = None \<rparr>))"

definition scrapeFailure :: "world \<Rightarrow> string \<Rightarrow> string \<Rightarrow> error \<Rightarrow> scraped_content" where
  \<comment> \<open>the record built in the \<open>catch\<close> block\<close>
  "scrapeFailure w u t e =
     \<lparr> sc_url = u, sc_title = t, content = [],
       summary = ''Unable to scrape content from '' @ t @ ''. This resource may require manual review.'',
       headers = [], wordCount = 0, scrapedAt = now w, error = Some (message e) \<rparr>"

definition scrapeAndSummarize :: "world \<Rightarrow> string \<Rightarrow> string \<Rightarrow> error + scraped_content" where
  "scrapeAndSummarize w u t =
     (case scrapeTry w u t of
        Inr r \<Rightarrow> Inr r
      | Inl e \<Rightarrow> Inr (scrapeFailure w u t e))"

section \<open>generateComprehensiveRoadmap\<close>

record options =
  opt_timeframe :: "string option"
  opt_level :: "string option"
  opt_dailyTimeMinutes :: "string option"
  opt_focus :: "string option"
  opt_includeProjects :: "bool option"

text \<open>
  The result object of \<open>generateComprehensiveRoadmap\<close>. \<open>roadmap\<close> is whatever
  \<open>extractJSON\<close> returned (or the static skeleton), \<open>totalSteps\<close> the value of
  \<open>roadmap.steps?.length || 0\<close>; \<open>dailyTimeMinutes\<close> is kept as a template prints it.
\<close>

record roadmap_result =
  rr_topic :: string
  timeframe :: string
  rr_level :: string
  dailyTimeMinutes :: string
  generatedAt :: string
  roadmap :: json
  sources :: "ranked_resource list"
  methodology :: string
  totalSteps :: json
  warning :: "string option"

definition fulfilled :: "(error + 'a) list \<Rightarrow> 'a list" where
  \<comment> \<open>the values of the fulfilled promises of \<open>Promise.allSettled\<close>\<close>
  "fulfilled rs = concat (map (\<lambda>r. case r of Inl e \<Rightarrow> [] | Inr v \<Rightarrow> [v]) rs)"

fun indexed :: "nat \<Rightarrow> 'a list \<Rightarrow> (nat \<times> 'a) list" where
  \<comment> \<open>the elements with their indices, as a \<open>map\<close> callback receives them\<close>
  "indexed i [] = []"
| "indexed i (x # xs) = (i, x) # indexed (Suc i) xs"

definition resourceSummaryLine :: "nat \<times> ranked_resource \<Rightarrow> string" where
  "resourceSummaryLine ir =
     (case ir of (index, resource) \<Rightarrow>
        showNat (Suc index) @ ''. '' @ title resource @ '' ('' @ source resource @ ''): ''
        @ (case scrapedContent resource of
             None \<Rightarrow> snippet resource
           | Some sc \<Rightarrow> if summary sc \<noteq> [] then summary sc else snippet resource))"

definition roadmapSchemaText :: string where
  \<comment> \<open>the fixed JSON structure at the end of the prompt\<close>
  "roadmapSchemaText =
     ''{'' @ [CHR 0x0A] @ ''  '' @ [CHR 0x22] @ ''overview'' @ [CHR 0x22] @ '': '' @ [CHR 0x22]
     @ ''Brief description of the learning journey'' @ [CHR 0x22] @ '','' @ [CHR 0x0A] @ ''  ''
     @ [CHR 0x22] @ ''prerequisites'' @ [CHR 0x22] @ '': ['' @ [CHR 0x22] @ ''prerequisite 1''
     @ [CHR 0x22] @ '', '' @ [CHR 0x22] @ ''prerequisite 2'' @ [CHR 0x22] @ ''],'' @ [CHR 0x0A]
     @ ''  '' @ [CHR 0x22] @ ''steps'' @ [CHR 0x22] @ '': ['' @ [CHR 0x0A] @ ''    {'' @ [CHR 0x0A]
     @ ''      '' @ [CHR 0x22] @ ''week'' @ [CHR 0x22] @ '': number,'' @ [CHR 0x0A] @ ''      ''
     @ [CHR 0x22] @ ''day'' @ [CHR 0x22] @ '': number,'' @ [CHR 0x0A] @ ''      '' @ [CHR 0x22]
     @ ''title'' @ [CHR 0x22] @ '': '' @ [CHR 0x22] @ ''Step title'' @ [CHR 0x22] @ '',''
     @ [CHR 0x0A] @ ''      '' @ [CHR 0x22] @ ''description'' @ [CHR 0x22] @ '': '' @ [CHR 0x22]
     @ ''What the learner will do'' @ [CHR 0x22] @ '','' @ [CHR 0x0A] @ ''      '' @ [CHR 0x22]
     @ ''duration'' @ [CHR 0x22] @ '': '' @ [CHR 0x22] @ ''3-5 minutes'' @ [CHR 0x22] @ '',''
     @ [CHR 0x0A] @ ''      '' @ [CHR 0x22] @ ''type'' @ [CHR 0x22] @ '': '' @ [CHR 0x22]
     @ ''theory|practice|project|quiz|review'' @ [CHR 0x22] @ '','' @ [CHR 0x0A] @ ''      ''
     @ [CHR 0x22] @ ''concepts'' @ [CHR 0x22] @ '': ['' @ [CHR 0x22] @ ''concept1'' @ [CHR 0x22]
     @ '', '' @ [CHR 0x22] @ ''concept2'' @ [CHR 0x22] @ ''],'' @ [CHR 0x0A] @ ''      ''
     @ [CHR 0x22] @ ''resources'' @ [CHR 0x22] @ '': ['' @ [CHR 0x22] @ ''resource name 1''
     @ [CHR 0x22] @ '', '' @ [CHR 0x22] @ ''resource name 2'' @ [CHR 0x22] @ ''],'' @ [CHR 0x0A]
     @ ''      '' @ [CHR 0x22] @ ''optional'' @ [CHR 0x22] @ '': false,'' @ [CHR 0x0A] @ ''      ''
     @ [CHR 0x22] @ ''difficulty'' @ [CHR 0x22] @ '': '' @ [CHR 0x22]
     @ ''beginner|intermediate|advanced'' @ [CHR 0x22, CHR 0x0A] @ ''    }'' @ [CHR 0x0A] @ ''  ],''
     @ [CHR 0x0A] @ ''  '' @ [CHR 0x22] @ ''projects'' @ [CHR 0x22] @ '': ['' @ [CHR 0x0A]
     @ ''    {'' @ [CHR 0x0A] @ ''      '' @ [CHR 0x22] @ ''title'' @ [CHR 0x22] @ '': ''
     @ [CHR 0x22] @ ''Project title'' @ [CHR 0x22] @ '','' @ [CHR 0x0A] @ ''      '' @ [CHR 0x22]
     @ ''description'' @ [CHR 0x22] @ '': '' @ [CHR 0x22] @ ''Project description'' @ [CHR 0x22]
     @ '','' @ [CHR 0x0A] @ ''      '' @ [CHR 0x22] @ ''week'' @ [CHR 0x22] @ '': number,''
     @ [CHR 0x0A] @ ''      '' @ [CHR 0x22] @ ''estimatedHours'' @ [CHR 0x22] @ '': number,''
     @ [CHR 0x0A] @ ''      '' @ [CHR 0x22] @ ''skills'' @ [CHR 0x22] @ '': ['' @ [CHR 0x22]
     @ ''skill1'' @ [CHR 0x22] @ '', '' @ [CHR 0x22] @ ''skill2'' @ [CHR 0x22] @ '']'' @ [CHR 0x0A]
     @ ''    }'' @ [CHR 0x0A] @ ''  ],'' @ [CHR 0x0A] @ ''  '' @ [CHR 0x22] @ ''milestones''
     @ [CHR 0x22] @ '': ['' @ [CHR 0x0A] @ ''    {'' @ [CHR 0x0A] @ ''      '' @ [CHR 0x22]
     @ ''week'' @ [CHR 0x22] @ '': number,'' @ [CHR 0x0A] @ ''      '' @ [CHR 0x22] @ ''title''
     @ [CHR 0x22] @ '': '' @ [CHR 0x22] @ ''Milestone title'' @ [CHR 0x22] @ '','' @ [CHR 0x0A]
     @ ''      '' @ [CHR 0x22] @ ''description'' @ [CHR 0x22] @ '': '' @ [CHR 0x22]
     @ ''What the learner should have achieved'' @ [CHR 0x22, CHR 0x0A] @ ''    }'' @ [CHR 0x0A]
     @ ''  ],'' @ [CHR 0x0A] @ ''  '' @ [CHR 0x22] @ ''additionalResources'' @ [CHR 0x22] @ '': [''
     @ [CHR 0x0A] @ ''    {'' @ [CHR 0x0A] @ ''      '' @ [CHR 0x22] @ ''title'' @ [CHR 0x22]
     @ '': '' @ [CHR 0x22] @ ''Resource title'' @ [CHR 0x22] @ '','' @ [CHR 0x0A] @ ''      ''
     @ [CHR 0x22] @ ''url'' @ [CHR 0x22] @ '': '' @ [CHR 0x22] @ ''resource url'' @ [CHR 0x22]
     @ '','' @ [CHR 0x0A] @ ''      '' @ [CHR 0x22] @ ''type'' @ [CHR 0x22] @ '': '' @ [CHR 0x22]
     @ ''article|video|course|book'' @ [CHR 0x22] @ '','' @ [CHR 0x0A] @ ''      '' @ [CHR 0x22]
     @ ''description'' @ [CHR 0x22] @ '': '' @ [CHR 0x22] @ ''Why this resource is helpful''
     @ [CHR 0x22, CHR 0x0A] @ ''    }'' @ [CHR 0x0A] @ ''  ]'' @ [CHR 0x0A] @ ''}''"

definition roadmapPrompt :: "string \<Rightarrow> ranked_resource list \<Rightarrow> options \<Rightarrow> string" where
  "roadmapPrompt topic resources options =
     (let resourceSummaries = join [CHR 0x0A] (map resourceSummaryLine (indexed 0 (take 5 resources)))
      in ''You are an expert learning designer. Create a comprehensive, step-by-s''
     @ ''tep roadmap for learning '' @ [CHR 0x22] @ topic @ [CHR 0x22] @ ''.'' @ [CHR 0x0A, CHR 0x0A]
     @ ''**Context from Web Research:**'' @ [CHR 0x0A] @ resourceSummaries @ [CHR 0x0A, CHR 0x0A]
     @ ''**Requirements:**'' @ [CHR 0x0A] @ ''- Level: '' @ printOpt (opt_level options) @ [CHR 0x0A]
     @ ''- Timeframe: '' @ printOpt (opt_timeframe options) @ [CHR 0x0A] @ ''- Daily time: ''
     @ printOpt (opt_dailyTimeMinutes options) @ '' minutes'' @ [CHR 0x0A] @ ''- Focus: ''
     @ printOpt (opt_focus options) @ [CHR 0x0A] @ ''- Include projects: ''
     @ printBoolOpt (opt_includeProjects options) @ [CHR 0x0A, CHR 0x0A] @ ''**Instructions:**''
     @ [CHR 0x0A] @ ''1. Create a practical, actionable roadmap'' @ [CHR 0x0A]
     @ ''2. Each step should be 3-5 minutes (microlearning format)'' @ [CHR 0x0A]
     @ ''3. Include variety: theory, practice, projects, quizzes'' @ [CHR 0x0A]
     @ ''4. Reference the web sources where relevant'' @ [CHR 0x0A]
     @ ''5. Make it suitable for different learning styles'' @ [CHR 0x0A]
     @ ''6. Include optional advanced topics'' @ [CHR 0x0A]
     @ ''7. Provide clear progression markers'' @ [CHR 0x0A, CHR 0x0A]
     @ ''Return a JSON object with this exact structure:'' @ [CHR 0x0A]
     @ roadmapSchemaText)"

text \<open>
  \<open>generateRoadmapWithSources\<close> returns what \<open>extractJSON\<close> returns; the check for
  \<open>steps\<close> is commented out in the source. The outer \<open>option\<close> is \<open>None\<close> when
  \<open>extractJSON\<close> does not return.
\<close>

definition generateRoadmapWithSources :: "world \<Rightarrow> string \<Rightarrow> ranked_resource list \<Rightarrow> options \<Rightarrow> (error + json) option" where
  "generateRoadmapWithSources w topic resources options =
     (case chat w (roadmapPrompt topic resources options) of
        Inl e \<Rightarrow> Some (Inl e)
      | Inr response \<Rightarrow> map_option Inr (extractJSON response))"

definition fallbackPrompt :: "string \<Rightarrow> options \<Rightarrow> string" where
  "fallbackPrompt topic options =
     ''Create a comprehensive learning roadmap for '' @ [CHR 0x22] @ topic @ [CHR 0x22]
     @ '' without external sources.'' @ [CHR 0x0A, CHR 0x0A] @ ''Level: ''
     @ printOpt (opt_level options) @ [CHR 0x0A] @ ''Timeframe: '' @ printOpt (opt_timeframe options)
     @ [CHR 0x0A] @ ''Daily time: '' @ printOpt (opt_dailyTimeMinutes options) @ '' minutes''
     @ [CHR 0x0A, CHR 0x0A]
     @ ''Return a well-structured JSON roadmap with steps, projects, and milest'' @ ''ones.''"

definition skeletonStep :: "string \<Rightarrow> options \<Rightarrow> json" where
  \<comment> \<open>the single step of the static skeleton; a missing \<open>options.level\<close> leaves
      \<open>difficulty\<close> undefined\<close>
  "skeletonStep topic options =
     JObj ([(''week'', JNum 1), (''day'', JNum 1),
            (''title'', JStr (''Introduction to '' @ topic)),
            (''description'', JStr (''Learn the basics of '' @ topic)),
            (''duration'', JStr ''5 minutes''),
            (''type'', JStr ''theory''),
            (''concepts'', JArr [JStr topic]),
            (''resources'', JArr []),
            (''optional'', JBool False)]
           @ (case opt_level options of None \<Rightarrow> [] | Some l \<Rightarrow> [(''difficulty'', JStr l)]))"

definition skeleton :: "string \<Rightarrow> options \<Rightarrow> json" where
  "skeleton topic options =
     JObj [(''overview'', JStr (''Learning roadmap for '' @ topic)),
           (''steps'', JArr [skeletonStep topic options]),
           (''projects'', JArr []),
           (''milestones'', JArr [])]"

definition generateFallbackRoadmap :: "world \<Rightarrow> string \<Rightarrow> options \<Rightarrow> (error + json) option" where
  "generateFallbackRoadmap w topic options =
     (case chat w (fallbackPrompt topic options) of
        Inl e \<Rightarrow> Some (Inl e)
      | Inr response \<Rightarrow>
          map_option (\<lambda>roadmapJson. Inr (if \<not> truthy roadmapJson then skeleton topic options
                                          else roadmapJson))
            (extractJSON response))"

definition totalStepsOf :: "json \<Rightarrow> error + json" where
  \<comment> \<open>\<open>roadmap.steps?.length || 0\<close>\<close>
  "totalStepsOf r =
     (case getProp r ''steps'' of
        Inl e \<Rightarrow> Inl e
      | Inr st \<Rightarrow>
          if nullish st then Inr (JNum 0)
          else (case getProp (the st) ''length'' of
                  Inl e \<Rightarrow> Inl e
                | Inr None \<Rightarrow> Inr (JNum 0)
                | Inr (Some n) \<Rightarrow> Inr (if truthy n then n else JNum 0)))"

definition withDefault :: "string option \<Rightarrow> string \<Rightarrow> string" where
  \<comment> \<open>a destructuring default: used when the option is undefined\<close>
  "withDefault v d = (case v of None \<Rightarrow> d | Some x \<Rightarrow> x)"

definition baseResult :: "world \<Rightarrow> string \<Rightarrow> options \<Rightarrow> roadmap_result" where
  \<comment> \<open>the fields both result objects share\<close>
  "baseResult w topic options =
     \<lparr> rr_topic = topic,
       timeframe = withDefault (opt_timeframe options) ''4-weeks'',
       rr_level = withDefault (opt_level options) ''beginner'',
       dailyTimeMinutes = withDefault (opt_dailyTimeMinutes options) ''30'',
       generatedAt = now w, roadmap = JNull, sources = [], methodology = [],
       totalSteps = JNum 0, warning = None \<rparr>"

definition webEnhancedTry :: "world \<Rightarrow> string \<Rightarrow> options \<Rightarrow> (error + roadmap_result) option" where
  \<comment> \<open>the \<open>try\<close> block of \<open>generateComprehensiveRoadmap\<close>\<close>
  "webEnhancedTry w topic options =
     (case performWebSearch w topic 8 of
        Inl e \<Rightarrow> Some (Inl e)
      | Inr searchResults \<Rightarrow>
          (let scrapedSettled = map (\<lambda>result. scrapeAndSummarize w (url result) (title result))
                                   (take 5 searchResults);
               validContent = filter (\<lambda>c. summary c \<noteq> [] \<and> length (summary c) > 20)
                                (fulfilled scrapedSettled);
               rankedResources = rankResources searchResults validContent
           in case generateRoadmapWithSources w topic rankedResources options of
                None \<Rightarrow> None
              | Some (Inl e) \<Rightarrow> Some (Inl e)
              | Some (Inr rm) \<Rightarrow>
                  (case totalStepsOf rm of
                     Inl e \<Rightarrow> Some (Inl e)
                   | Inr n \<Rightarrow>
                       Some (Inr ((baseResult w topic options)
                                    \<lparr> roadmap := rm, sources := take 10 rankedResources,
                                      methodology := ''web-enhanced-llm'', totalSteps := n \<rparr>)))))"

definition llmFallback :: "world \<Rightarrow> string \<Rightarrow> options \<Rightarrow> (error + roadmap_result) option" where
  \<comment> \<open>the \<open>catch\<close> block of \<open>generateComprehensiveRoadmap\<close>\<close>
  "llmFallback w topic options =
     (case generateFallbackRoadmap w topic options of
        None \<Rightarrow> None
      | Some (Inl e) \<Rightarrow> Some (Inl e)
      | Some (Inr fallbackRoadmap) \<Rightarrow>
          (case totalStepsOf fallbackRoadmap of
             Inl e \<Rightarrow> Some (Inl e)
           | Inr n \<Rightarrow>
               Some (Inr ((baseResult w topic options)
                            \<lparr> roadmap := fallbackRoadmap, sources := [],
                              methodology := ''llm-fallback'', totalSteps := n,
                              warning := Some ''Generated without web sources due to connectivity issues'' \<rparr>))))"

definition generateComprehensiveRoadmap :: "world \<Rightarrow> string \<Rightarrow> options \<Rightarrow> (error + roadmap_result) option" where
  "generateComprehensiveRoadmap w topic options =
     (case webEnhancedTry w topic options of
        None \<Rightarrow> None
      | Some (Inr res) \<Rightarrow> Some (Inr res)
      | Some (Inl e) \<Rightarrow> llmFallback w topic options)"

section \<open>The compare-resources route\<close>

text \<open>
  An element of \<open>resources\<close>: the record of a fulfilled scrape, or the object built
  for a rejected one (url, title, error).
\<close>

datatype resource = Scraped scraped_content | Unscraped string string string













section \<open>roadmapLlmService.js: generateRoadmapWithLLM\<close>

text \<open>
  A step as the service builds it. The research-agent branch also sets
  \<open>description\<close>, \<open>resources\<close>, \<open>type\<close> and \<open>duration\<close>; the basic branch leaves
  them out (\<open>None\<close>).
\<close>

record step =
  day :: jsnum
  topic :: string
  lessonIds :: "string list"
  concepts :: "string list"
  description :: "json option"
  resources :: "json option"
  stepType :: "json option"
  duration :: "json option"

text \<open>
  The update handed to \<open>Roadmap.findOneAndUpdate({userId}, ..., {upsert: true, new:
  true})\<close>: the steps and the \<open>metadata\<close> object.
\<close>

record roadmap_update =
  up_steps :: "step list"
  generatedWith :: string
  metaSources :: "ranked_resource list option"
  metaGeneratedAt :: string

text \<open>
  The stored document, as the schema of models/Roadmap.js shapes it. A step keeps its
  \<open>day\<close> (a Number), its \<open>topic\<close> (a String, trimmed) and its \<open>lessonIds\<close>; the
  step schema has no other field, and the roadmap schema has no \<open>metadata\<close>, so
  these parts of the update are not stored. A day that is \<open>NaN\<close> cannot be cast to a
  Number: the step is stored without a day (\<open>None\<close>), unless the database layer
  rejects the write. The schema adds the timestamps \<open>createdAt\<close> and \<open>updatedAt\<close>.
  The store maps a user to their roadmap.
\<close>

record stored_step =
  st_day :: "jsnum option"
  st_topic :: string
  st_lessonIds :: "string list"

record roadmap_doc =
  doc_userId :: string
  steps :: "stored_step list"
  createdAt :: string
  updatedAt :: string

type_synonym store = "string \<Rightarrow> roadmap_doc option"

definition castDay :: "jsnum \<Rightarrow> jsnum option" where
  \<comment> \<open>the cast of a day to the schema type Number\<close>
  "castDay d = (case d of NaN \<Rightarrow> None | _ \<Rightarrow> Some d)"

definition castStep :: "step \<Rightarrow> stored_step" where
  \<comment> \<open>a step of the update as the step schema keeps it\<close>
  "castStep s = \<lparr> st_day = castDay (day s), st_topic = trim (topic s), st_lessonIds = lessonIds s \<rparr>"

definition schemaFields :: "step \<Rightarrow> jsnum \<times> string \<times> string list" where
  \<comment> \<open>what the database layer reads of a step of the update\<close>
  "schemaFields s = (day s, topic s, lessonIds s)"

definition orElse :: "json option \<Rightarrow> json \<Rightarrow> json" where
  \<comment> \<open>\<open>v || d\<close>\<close>
  "orElse v d = (case v of None \<Rightarrow> d | Some x \<Rightarrow> if truthy x then x else d)"

definition stringList :: "world \<Rightarrow> json option \<Rightarrow> error + string list" where
  \<comment> \<open>\<open>Array.isArray(v) ? v.map(String) : []\<close>\<close>
  "stringList w v =
     (case v of
        Some (JArr xs) \<Rightarrow> sequenceE (map (jsString (numberToString w)) xs)
      | _ \<Rightarrow> Inr [])"

definition dayOf :: "world \<Rightarrow> json option \<Rightarrow> nat \<Rightarrow> error + jsnum" where
  \<comment> \<open>\<open>Number(s.day ?? i + 1)\<close>\<close>
  "dayOf w d i =
     (if nullish d then Inr (Num (of_nat (i + 1)))
      else jsNumber (numberToString w) (stringToNumber w) (the d))"

definition researchStep :: "world \<Rightarrow> nat \<times> json \<Rightarrow> error + step" where
  \<comment> \<open>the \<open>map\<close> callback of the research-agent branch. Once \<open>s.day\<close> has been read,
      \<open>s\<close> is not \<open>null\<close> and the later reads of its properties cannot throw\<close>
  "researchStep w is =
     (case is of (i, s) \<Rightarrow>
        (case getProp s ''day'' of
           Inl e \<Rightarrow> Inl e
         | Inr d \<Rightarrow>
             (case dayOf w d i of
                Inl e \<Rightarrow> Inl e
              | Inr dy \<Rightarrow>
                  (let t1 = projr (getProp s ''title''); t2 = projr (getProp s ''topic'')
                   in case (if \<not> nullish t1 then jsString (numberToString w) (the t1)
                            else if \<not> nullish t2 then jsString (numberToString w) (the t2)
                            else Inr (''Day '' @ showNat (i + 1))) of
                        Inl e \<Rightarrow> Inl e
                      | Inr tp \<Rightarrow>
                          (case stringList w (projr (getProp s ''concepts'')) of
                             Inl e \<Rightarrow> Inl e
                           | Inr cs \<Rightarrow>
                               Inr \<lparr> day = dy, topic = tp, lessonIds = [], concepts = cs,
                                     description = Some (orElse (projr (getProp s ''description'')) (JStr [])),
                                     resources = Some (orElse (projr (getProp s ''resources'')) (JArr [])),
                                     stepType = Some (orElse (projr (getProp s ''type'')) (JStr ''theory'')),
                                     duration = Some (orElse (projr (getProp s ''duration'')) (JStr ''5 minutes'')) \<rparr>)))))"

definition firstSeven :: "json \<Rightarrow> error + json list" where
  \<comment> \<open>the receiver of \<open>.map\<close> in \<open>roadmap.steps?.slice(0, 7).map(...) || []\<close>: the
      first seven elements of an array, nothing when \<open>steps\<close> is undefined or null, a
      TypeError for any other value (it has no \<open>slice\<close>, or its slice has no \<open>map\<close>)\<close>
  "firstSeven rm =
     (case getProp rm ''steps'' of
        Inl e \<Rightarrow> Inl e
      | Inr st \<Rightarrow>
          if nullish st then Inr []
          else (case the st of
                  JArr xs \<Rightarrow> Inr (take 7 xs)
                | JStr str \<Rightarrow> Inl (Error ''comprehensiveRoadmap.roadmap.steps?.slice(...).map is not a function'')
                | _ \<Rightarrow> Inl (Error ''comprehensiveRoadmap.roadmap.steps?.slice is not a function'')))"

definition researchSteps :: "world \<Rightarrow> json \<Rightarrow> error + step list" where
  "researchSteps w rm =
     (case firstSeven rm of
        Inl e \<Rightarrow> Inl e
      | Inr xs \<Rightarrow> sequenceE (map (researchStep w) (indexed 0 xs)))"

definition basicStep :: "world \<Rightarrow> nat \<times> json \<Rightarrow> error + step" where
  \<comment> \<open>the \<open>map\<close> callback of the basic branch\<close>
  "basicStep w is =
     (case is of (i, s) \<Rightarrow>
        (case getProp s ''day'' of
           Inl e \<Rightarrow> Inl e
         | Inr d \<Rightarrow>
             (case dayOf w d i of
                Inl e \<Rightarrow> Inl e
              | Inr dy \<Rightarrow>
                  (let t2 = projr (getProp s ''topic'')
                   in case (if \<not> nullish t2 then jsString (numberToString w) (the t2)
                            else Inr (''Day '' @ showNat (i + 1))) of
                        Inl e \<Rightarrow> Inl e
                      | Inr tp \<Rightarrow>
                          (case stringList w (projr (getProp s ''lessonIds'')) of
                             Inl e \<Rightarrow> Inl e
                           | Inr ls \<Rightarrow>
                               (case stringList w (projr (getProp s ''concepts'')) of
                                  Inl e \<Rightarrow> Inl e
                                | Inr cs \<Rightarrow>
                                    Inr \<lparr> day = dy, topic = tp, lessonIds = ls, concepts = cs,
                                          description = None, resources = None,
                                          stepType = None, duration = None \<rparr>))))))"

definition buildPrompt :: "profile option \<Rightarrow> concept list option \<Rightarrow> string" where
  "buildPrompt profileOpt bank =
     (let profile = (case profileOpt of
                       None \<Rightarrow> \<lparr> pf_skill = None, pf_level = None, pf_dailyTime = None, pf_goal = None \<rparr>
                     | Some p \<Rightarrow> p);
          weak = take 5 (map (\<lambda>c. cp_topic c @ '' ('' @ showNat (strengthLevel c) @ '')'')
                          (filter (\<lambda>c. strengthLevel c < 50)
                             (case bank of None \<Rightarrow> [] | Some cs \<Rightarrow> cs)))
      in ''You are an expert learning planner. Create a 7-day microlearning roadm'' @ ''ap as JSON.''
     @ [CHR 0x0A] @ ''Profile: skill='' @ printOpt (pf_skill profile) @ '', level=''
     @ printOpt (pf_level profile) @ '', dailyTime='' @ printOpt (pf_dailyTime profile)
     @ '' minutes, goal='' @ printOpt (pf_goal profile) @ ''.'' @ [CHR 0x0A] @ ''Weak topics: ''
     @ (if join '', '' weak = [] then ''None'' else join '', '' weak) @ ''.'' @ [CHR 0x0A]
     @ ''Return strictly JSON with shape: { '' @ [CHR 0x22] @ ''steps'' @ [CHR 0x22] @ '': [ { ''
     @ [CHR 0x22] @ ''day'' @ [CHR 0x22] @ '': number, '' @ [CHR 0x22] @ ''topic'' @ [CHR 0x22]
     @ '': string, '' @ [CHR 0x22] @ ''lessonIds'' @ [CHR 0x22] @ '': string[], '' @ [CHR 0x22]
     @ ''concepts'' @ [CHR 0x22] @ '': string[] } ] }.'' @ [CHR 0x0A]
     @ ''Topics should be concise and practical. Concepts array lists 1-2 key i'' @ ''deas.''
     @ [CHR 0x0A])"

definition saveRoadmap :: "world \<Rightarrow> store \<Rightarrow> string \<Rightarrow> roadmap_update \<Rightarrow> error + roadmap_doc \<times> store" where
  \<comment> \<open>\<open>Roadmap.findOneAndUpdate\<close> with \<open>upsert\<close> and \<open>new\<close>: the steps of the user's
      document are set (the document is created when there is none), and the document
      as it is after the update is returned\<close>
  "saveRoadmap w st userId upd =
     (case writeError w userId (map schemaFields (up_steps upd)) of
        Some e \<Rightarrow> Inl e
      | None \<Rightarrow>
          (let doc = \<lparr> doc_userId = userId,
                         steps = map castStep (up_steps upd),
                         createdAt = (case st userId of None \<Rightarrow> now w | Some old \<Rightarrow> createdAt old),
                         updatedAt = now w \<rparr>
           in Inr (doc, st (userId := Some doc))))"

definition researchOptions :: "profile \<Rightarrow> options" where
  \<comment> \<open>the options the research-agent branch passes:
      \<open>level: profile.level || 'beginner'\<close>, \<open>dailyTimeMinutes: profile.dailyTime || 30\<close>\<close>
  "researchOptions profile =
     \<lparr> opt_timeframe = Some ''4-weeks'',
       opt_level = Some (if pf_level profile \<noteq> None \<and> pf_level profile \<noteq> Some []
                         then the (pf_level profile) else ''beginner''),
       opt_dailyTimeMinutes = Some (if pf_dailyTime profile \<noteq> None \<and> pf_dailyTime profile \<noteq> Some []
                                    then the (pf_dailyTime profile) else ''30''),
       opt_focus = Some ''practical'',
       opt_includeProjects = Some True \<rparr>"

definition researchBranch :: "world \<Rightarrow> store \<Rightarrow> string \<Rightarrow> profile \<Rightarrow> (error + roadmap_doc \<times> store) option" where
  \<comment> \<open>the \<open>try\<close> block of the research-agent branch\<close>
  "researchBranch w st userId profile =
     (case generateComprehensiveRoadmap w (the (pf_skill profile)) (researchOptions profile) of
        None \<Rightarrow> None
      | Some (Inl e) \<Rightarrow> Some (Inl e)
      | Some (Inr comprehensiveRoadmap) \<Rightarrow>
          (case researchSteps w (roadmap comprehensiveRoadmap) of
             Inl e \<Rightarrow> Some (Inl e)
           | Inr sts \<Rightarrow>
               Some (saveRoadmap w st userId
                       \<lparr> up_steps = sts, generatedWith = ''research-agent'',
                         metaSources = Some (take 5 (sources comprehensiveRoadmap)),
                         metaGeneratedAt = now w \<rparr>)))"

definition basicBranch :: "world \<Rightarrow> store \<Rightarrow> string \<Rightarrow> profile option \<Rightarrow> concept list option \<Rightarrow> (error + roadmap_doc \<times> store) option" where
  \<comment> \<open>the original LLM-only generation\<close>
  "basicBranch w st userId profile bank =
     (case chat w (buildPrompt profile bank) of
        Inl e \<Rightarrow> Some (Inl e)
      | Inr reply \<Rightarrow>
          (case extractJSON reply of
             None \<Rightarrow> None
           | Some j \<Rightarrow>
               (case (if j = JNull then None else projr (getProp j ''steps'')) of
                  Some (JArr xs) \<Rightarrow>
                    (case sequenceE (map (basicStep w) (indexed 0 (take 7 xs))) of
                       Inl e \<Rightarrow> Some (Inl e)
                     | Inr sts \<Rightarrow>
                         Some (saveRoadmap w st userId
                                 \<lparr> up_steps = sts, generatedWith = ''basic-llm'',
                                   metaSources = None, metaGeneratedAt = now w \<rparr>))
                | _ \<Rightarrow> Some (Inl (Error ''LLM did not return steps'')))))"

definition generateRoadmapWithLLM :: "world \<Rightarrow> store \<Rightarrow> string \<Rightarrow> bool \<Rightarrow> (error + roadmap_doc \<times> store) option" where
  "generateRoadmapWithLLM w st userId useResearchAgent =
     (case findProfile w userId of
        Inl e \<Rightarrow> Some (Inl e)
      | Inr profile \<Rightarrow>
          (case findBank w userId of
             Inl e \<Rightarrow> Some (Inl e)
           | Inr bank \<Rightarrow>
               if useResearchAgent \<and> profile \<noteq> None \<and> pf_skill (the profile) \<noteq> None
                  \<and> pf_skill (the profile) \<noteq> Some [] then
                 (case researchBranch w st userId (the profile) of
                    None \<Rightarrow> None
                  | Some (Inr r) \<Rightarrow> Some (Inr r)
                  | Some (Inl e) \<Rightarrow> basicBranch w st userId profile bank)
               else basicBranch w st userId profile bank))"

subsection \<open>Example worlds for searching and scraping\<close>

definition emptyPage :: page where
  "emptyPage = \<lparr> selectText = (\<lambda>selector. (0, [])), headingElems = [] \<rparr>"

definition emptyAnswer :: ddg_data where
  "emptyAnswer = \<lparr> AbstractText = [], AbstractURL = [], Heading = [], AbstractSource = [],
                    RelatedTopics = Some [] \<rparr>"

definition offlineWorld :: world where
  \<comment> \<open>every request fails; the database has no documents and accepts writes. The
      conversions are given for the values the examples use (non-negative integers)\<close>
  "offlineWorld = \<lparr> httpGetPage = (\<lambda>u. Inl (Error ''Invalid URL'')),
                     httpGetSearch = (\<lambda>q. Inl (Error ''timeout of 10000ms exceeded'')),
                     chat = (\<lambda>p. Inl (Error ''Failed to connect to OpenRouter: fetch failed'')),
                     now = ''2025-01-01T00:00:00.000Z'',
                     numberToString = (\<lambda>n. showNat (nat \<lfloor>n\<rfloor>)),
                     stringToNumber = (\<lambda>str. NaN),
                     findProfile = (\<lambda>u. Inr None),
                     findBank = (\<lambda>u. Inr None),
                     writeError = (\<lambda>u ss. None) \<rparr>"

definition quietWorld :: world where
  \<comment> \<open>the search API answers with no entries, pages are empty\<close>
  "quietWorld = offlineWorld \<lparr> httpGetPage := (\<lambda>u. Inr emptyPage),
                               httpGetSearch := (\<lambda>q. Inr emptyAnswer) \<rparr>"

definition longPage :: page where
  \<comment> \<open>a page whose body text is 1001 characters long\<close>
  "longPage = \<lparr> selectText = (\<lambda>selector. if selector = ''body'' then (1, replicate 1001 (CHR ''a''))
                                          else (0, [])),
                 headingElems = [] \<rparr>"

definition longWorld :: world where
  "longWorld = offlineWorld \<lparr> httpGetPage := (\<lambda>u. Inr longPage),
                              chat := (\<lambda>p. Inr ''A summary.'') \<rparr>"

section \<open>Notions used to state the properties\<close>

definition proposedSteps :: "json \<Rightarrow> json list" where
  \<comment> \<open>the steps a synthesis output proposes: its \<open>steps\<close> property when that is an
      array\<close>
  "proposedSteps rm =
     (case getProp rm ''steps'' of
        Inr (Some (JArr xs)) \<Rightarrow> xs
      | _ \<Rightarrow> [])"



definition rankedResourcesOf :: "world \<Rightarrow> string \<Rightarrow> ranked_resource list" where
  \<comment> \<open>\<open>rankedResources\<close>: what steps 1 to 3 of the \<open>try\<close> block of
      \<open>generateComprehensiveRoadmap\<close> compute (search, scraping, ranking)\<close>
  "rankedResourcesOf w tp =
     (case performWebSearch w tp 8 of
        Inl e \<Rightarrow> []
      | Inr searchResults \<Rightarrow>
          rankResources searchResults
            (filter (\<lambda>c. summary c \<noteq> [] \<and> length (summary c) > 20)
               (fulfilled (map (\<lambda>result. scrapeAndSummarize w (url result) (title result))
                             (take 5 searchResults)))))"

definition primaryPrompt :: "world \<Rightarrow> string \<Rightarrow> options \<Rightarrow> string" where
  \<comment> \<open>the prompt of the primary synthesis call\<close>
  "primaryPrompt w tp opts = roadmapPrompt tp (rankedResourcesOf w tp) opts"

subsection \<open>Example worlds for roadmap generation and comparison\<close>

definition defaultOptions :: options where
  "defaultOptions = \<lparr> opt_timeframe = Some ''4-weeks'', opt_level = Some ''beginner'',
       opt_dailyTimeMinutes = Some ''30'', opt_focus = Some ''practical'',
       opt_includeProjects = Some True \<rparr>"

definition emptyObjectWorld :: world where
  \<comment> \<open>no network; the model fails on the first prompt and answers the fallback prompt
      with the JSON text \<open>{}\<close>\<close>
  "emptyObjectWorld =
     offlineWorld \<lparr> chat := (\<lambda>p. if startsWith p ''Create a comprehensive learning roadmap''
                                  then Inr ''{}''
                                  else Inl (Error ''Failed to connect to OpenRouter: fetch failed'')) \<rparr>"


definition noJsonWorld :: world where
  \<comment> \<open>no network; the model answers every prompt with text that holds no JSON\<close>
  "noJsonWorld = offlineWorld \<lparr> chat := (\<lambda>p. Inr ''I cannot help with that.'') \<rparr>"

definition twoWeekPlan :: string where
  \<comment> \<open>the JSON text of a plan of eight steps over two weeks, days 1 to 5 and 1 to 3\<close>
  "twoWeekPlan =
     ''{'' @ [CHR 0x22] @ ''steps'' @ [CHR 0x22] @ '':[''
     @ ''{'' @ [CHR 0x22] @ ''day'' @ [CHR 0x22] @ '':1},''
     @ ''{'' @ [CHR 0x22] @ ''day'' @ [CHR 0x22] @ '':2},''
     @ ''{'' @ [CHR 0x22] @ ''day'' @ [CHR 0x22] @ '':3},''
     @ ''{'' @ [CHR 0x22] @ ''day'' @ [CHR 0x22] @ '':4},''
     @ ''{'' @ [CHR 0x22] @ ''day'' @ [CHR 0x22] @ '':5},''
     @ ''{'' @ [CHR 0x22] @ ''day'' @ [CHR 0x22] @ '':1},''
     @ ''{'' @ [CHR 0x22] @ ''day'' @ [CHR 0x22] @ '':2},''
     @ ''{'' @ [CHR 0x22] @ ''day'' @ [CHR 0x22] @ '':3}]}''"

definition cook :: profile where
  "cook = \<lparr> pf_skill = Some ''Cooking'', pf_level = Some ''beginner'',
            pf_dailyTime = Some ''15-30 min'', pf_goal = None \<rparr>"

definition twoWeekWorld :: world where
  \<comment> \<open>no network; the user has a profile; the model answers every prompt with the
      two-week plan\<close>
  "twoWeekWorld = offlineWorld \<lparr> chat := (\<lambda>p. Inr twoWeekPlan),
                                 findProfile := (\<lambda>u. Inr (Some cook)) \<rparr>"

definition emptyStore :: store where
  "emptyStore = (\<lambda>u. None)"

definition twoWeekJson :: json where
  \<comment> \<open>what \<open>JSON.parse\<close> makes of the two-week plan\<close>
  "twoWeekJson =
     JObj [(''steps'', JArr (map (\<lambda>d. JObj [(''day'', JNum d)]) [1, 2, 3, 4, 5, 1, 2, 3]))]"

definition plainStep :: "rat \<Rightarrow> nat \<Rightarrow> step" where
  \<comment> \<open>the step built from a proposed step that gives only its day\<close>
  "plainStep d i =
     \<lparr> day = Num d, topic = ''Day '' @ showNat i, lessonIds = [], concepts = [],
       description = Some (JStr []), resources = Some (JArr []),
       stepType = Some (JStr ''theory''), duration = Some (JStr ''5 minutes'') \<rparr>"

definition storedPlain :: "rat \<Rightarrow> nat \<Rightarrow> stored_step" where
  \<comment> \<open>what is stored of such a step\<close>
  "storedPlain d i = \<lparr> st_day = Some (Num d), st_topic = ''Day '' @ showNat i, st_lessonIds = [] \<rparr>"

definition planDoc :: "stored_step list \<Rightarrow> roadmap_doc" where
  \<comment> \<open>the roadmap of user \<open>u1\<close> with the given steps, first stored at the time of the
      example worlds\<close>
  "planDoc sts = \<lparr> doc_userId = ''u1'', steps = sts,
                   createdAt = ''2025-01-01T00:00:00.000Z'',
                   updatedAt = ''2025-01-01T00:00:00.000Z'' \<rparr>"

definition twoWeekSteps :: "step list" where
  \<comment> \<open>the steps the service builds from the two-week plan\<close>
  "twoWeekSteps = [plainStep 1 1, plainStep 2 2, plainStep 3 3, plainStep 4 4, plainStep 5 5,
                   plainStep 1 6, plainStep 2 7]"

definition twoWeekDoc :: roadmap_doc where
  \<comment> \<open>the roadmap stored for the two-week plan\<close>
  "twoWeekDoc = planDoc [storedPlain 1 1, storedPlain 2 2, storedPlain 3 3, storedPlain 4 4,
                         storedPlain 5 5, storedPlain 1 6, storedPlain 2 7]"

definition eightDayPlan :: string where
  \<comment> \<open>the JSON text of a plan of eight steps with the days 1 to 8\<close>
  "eightDayPlan =
     ''{'' @ [CHR 0x22] @ ''steps'' @ [CHR 0x22] @ '':[''
     @ ''{'' @ [CHR 0x22] @ ''day'' @ [CHR 0x22] @ '':1},''
     @ ''{'' @ [CHR 0x22] @ ''day'' @ [CHR 0x22] @ '':2},''
     @ ''{'' @ [CHR 0x22] @ ''day'' @ [CHR 0x22] @ '':3},''
     @ ''{'' @ [CHR 0x22] @ ''day'' @ [CHR 0x22] @ '':4},''
     @ ''{'' @ [CHR 0x22] @ ''day'' @ [CHR 0x22] @ '':5},''
     @ ''{'' @ [CHR 0x22] @ ''day'' @ [CHR 0x22] @ '':6},''
     @ ''{'' @ [CHR 0x22] @ ''day'' @ [CHR 0x22] @ '':7},''
     @ ''{'' @ [CHR 0x22] @ ''day'' @ [CHR 0x22] @ '':8}]}''"

definition eightDayWorld :: world where
  \<comment> \<open>as \<open>twoWeekWorld\<close>, the model answering with the eight-day plan\<close>
  "eightDayWorld = twoWeekWorld \<lparr> chat := (\<lambda>p. Inr eightDayPlan) \<rparr>"

definition eightDayJson :: json where
  "eightDayJson =
     JObj [(''steps'', JArr (map (\<lambda>d. JObj [(''day'', JNum d)]) [1, 2, 3, 4, 5, 6, 7, 8]))]"

definition eightDaySteps :: "step list" where
  "eightDaySteps = [plainStep 1 1, plainStep 2 2, plainStep 3 3, plainStep 4 4, plainStep 5 5,
                    plainStep 6 6, plainStep 7 7]"

definition eightDayDoc :: roadmap_doc where
  \<comment> \<open>the roadmap stored for the eight-day plan\<close>
  "eightDayDoc = planDoc [storedPlain 1 1, storedPlain 2 2, storedPlain 3 3, storedPlain 4 4,
                          storedPlain 5 5, storedPlain 6 6, storedPlain 7 7]"

subsection \<open>Example inputs for extractJSON\<close>

definition backtickString :: string where
  \<comment> \<open>the JSON text of the string made of a backtick, the digit 1 and a backtick\<close>
  "backtickString = [CHR 0x22, CHR 0x60, CHR ''1'', CHR 0x60, CHR 0x22]"

definition smallObject :: string where
  \<comment> \<open>the JSON text \<open>{"a": [1, 2]}\<close>\<close>
  "smallObject = ''{'' @ [CHR 0x22] @ ''a'' @ [CHR 0x22] @ '': [1, 2]}''"

definition loopX :: string where
  \<comment> \<open>an array literal without commas whose last item is the replacement pattern
      \<open>$&\<close>\<close>
  "loopX = ''[1 1 1 1 $&]''"

definition loopA :: string where
  "loopA = ''[1, 1, 1, 1 ''"

definition loopState :: "nat \<Rightarrow> string" where
  \<comment> \<open>\<open>cleaned\<close> after \<open>k\<close> rounds of the loop of \<open>cleanupJSON\<close> on \<open>loopX\<close>\<close>
  "loopState k = concat (replicate k loopA) @ loopX @ replicate k (CHR '']'')"

section \<open>Properties of rankResources\<close>

lemma qualityScore_rankOne:
  "qualityScore (rankOne r scs) =
     min (qualityBeforeClamp r (find (\<lambda>c. sc_url c = url r) scs)) 1"
  by (simp add: rankOne_def Let_def search_result.defs)

lemma qualityBeforeClamp_base_le:
  "(if relevanceScore r = 0 then 5 / 10 else relevanceScore r) \<le> qualityBeforeClamp r lo"
  by (simp add: qualityBeforeClamp_def Let_def split: option.split)

lemma qualityBeforeClamp_nonneg:
  "0 \<le> relevanceScore r \<Longrightarrow> 0 \<le> qualityBeforeClamp r lo"
  using qualityBeforeClamp_base_le [of r lo] by (simp split: if_splits)

lemma qualityBeforeClamp_mono:
  assumes "relevanceScore r' = relevanceScore r"
      and "isTrusted (url r) \<longrightarrow> isTrusted (url r')"
      and "\<forall>sc. lo = Some sc \<longrightarrow>
             (\<exists>sc'. lo' = Some sc' \<and> wordCount sc \<le> wordCount sc'
                \<and> length (headers sc) \<le> length (headers sc')
                \<and> length (summary sc) \<le> length (summary sc'))"
  shows "qualityBeforeClamp r lo \<le> qualityBeforeClamp r' lo'"
proof (cases lo)
  case None
  have "qualityBeforeClamp r None
          \<le> (if relevanceScore r = 0 then 5 / 10 else relevanceScore r)
              + (if isTrusted (url r') then 2 / 10 else 0)"
    using assms(2) by (simp add: qualityBeforeClamp_def Let_def)
  also have "\<dots> \<le> qualityBeforeClamp r' lo'"
    using assms(1) by (simp add: qualityBeforeClamp_def Let_def split: option.split)
  finally show ?thesis using None by simp
next
  case (Some sc)
  then obtain sc' where sc': "lo' = Some sc'" "wordCount sc \<le> wordCount sc'"
      "length (headers sc) \<le> length (headers sc')" "length (summary sc) \<le> length (summary sc')"
    using assms(3) by blast
  show ?thesis
    using assms(1,2) sc'(2,3,4) unfolding Some sc'(1)
    by (simp add: qualityBeforeClamp_def Let_def)
qed

lemma rankOne_in_rankResources:
  "r \<in> set rs \<Longrightarrow> rankOne r scs \<in> set (rankResources rs scs)"
  by (simp add: rankResources_def)

text \<open>
  C7 (as stated) fails: the heading boost needs more than three headings
  (\<open>scraped.headers.length > 3\<close>), so a page with exactly three headings gets no
  boost; and a relevance score of 0 is replaced by 0.5 (\<open>relevanceScore || 0.5\<close>).
\<close>

theorem rankResources_boosts_counterexample:
  "find (\<lambda>c. sc_url c = url plainResult) [threeHeadingScrape] = Some threeHeadingScrape
   \<and> length (headers threeHeadingScrape) = 3
   \<and> qualityBeforeClamp plainResult (Some threeHeadingScrape)
       \<noteq> relevanceScore plainResult
           + (if wordCount threeHeadingScrape > 500 then 1 / 10 else 0)
           + (if length (headers threeHeadingScrape) \<ge> 3 then 1 / 10 else 0)
           + (if length (summary threeHeadingScrape) > 100 then 1 / 10 else 0)
           + (if isTrusted (url plainResult) then 2 / 10 else 0)
   \<and> qualityBeforeClamp zeroScoreResult None \<noteq> relevanceScore zeroScoreResult"
  by (simp add: qualityBeforeClamp_def Let_def plainResult_def threeHeadingScrape_def
      thinScrape_def zeroScoreResult_def isTrusted_def trustedDomains_def includes_str_def)

text \<open>
  C7 (amended): for every search result with a matching scraped content record, the
  quality score before clamping is the base score (\<open>relevanceScore\<close>, or 0.5 when
  that is 0) plus 0.1 if the scraped word count exceeds 500, plus 0.1 if there are more
  than 3 extracted headings, plus 0.1 if the summary is longer than 100 characters, plus
  0.2 if the URL contains a trusted domain; the stored \<open>qualityScore\<close> is the minimum
  of that sum and 1.
\<close>

theorem rankResources_boosts:
  assumes "find (\<lambda>c. sc_url c = url r) scs = Some sc"
  shows "qualityBeforeClamp r (find (\<lambda>c. sc_url c = url r) scs)
           = (if relevanceScore r = 0 then 5 / 10 else relevanceScore r)
             + (if wordCount sc > 500 then 1 / 10 else 0)
             + (if length (headers sc) > 3 then 1 / 10 else 0)
             + (if length (summary sc) > 100 then 1 / 10 else 0)
             + (if isTrusted (url r) then 2 / 10 else 0)
         \<and> qualityScore (rankOne r scs)
           = min (qualityBeforeClamp r (find (\<lambda>c. sc_url c = url r) scs)) 1"
  unfolding assms qualityScore_rankOne
  by (simp add: qualityBeforeClamp_def Let_def)

theorem rankResources_boosts_witness:
  "qualityBeforeClamp trustedResult (find (\<lambda>c. sc_url c = url trustedResult) [thinScrape, richScrape])
     = 7 / 10 + 1 / 10 + 1 / 10 + 0 + 2 / 10
   \<and> qualityScore (rankOne trustedResult [thinScrape, richScrape]) = 1"
  using rankResources_boosts [of trustedResult "[thinScrape, richScrape]" richScrape]
  by (simp add: trustedResult_def plainResult_def thinScrape_def richScrape_def
      isTrusted_def trustedDomains_def includes_str_def)

text \<open>
  C6: when a candidate gains a trusted-domain match, or its scraped record gains words
  or headings (everything else about the candidate equal), its \<open>qualityScore\<close> in
  the output of \<open>rankResources\<close> does not decrease; and when every relevance score
  of the input lies in [0,1], every \<open>qualityScore\<close> of the output lies in [0,1].
\<close>

theorem rankResources_monotone_clamped:
  assumes "r \<in> set rs" and "r' \<in> set rs'"
      and "relevanceScore r' = relevanceScore r"
      and "isTrusted (url r) \<longrightarrow> isTrusted (url r')"
      and "\<forall>sc. find (\<lambda>c. sc_url c = url r) scs = Some sc \<longrightarrow>
             (\<exists>sc'. find (\<lambda>c. sc_url c = url r') scs' = Some sc'
                \<and> wordCount sc \<le> wordCount sc'
                \<and> length (headers sc) \<le> length (headers sc')
                \<and> summary sc' = summary sc)"
      and "\<forall>x \<in> set rs. 0 \<le> relevanceScore x \<and> relevanceScore x \<le> 1"
  shows "rankOne r scs \<in> set (rankResources rs scs)
       \<and> rankOne r' scs' \<in> set (rankResources rs' scs')
       \<and> qualityScore (rankOne r scs) \<le> qualityScore (rankOne r' scs')
       \<and> (\<forall>x \<in> set (rankResources rs scs). 0 \<le> qualityScore x \<and> qualityScore x \<le> 1)"
proof -
  have mono: "qualityBeforeClamp r (find (\<lambda>c. sc_url c = url r) scs)
                \<le> qualityBeforeClamp r' (find (\<lambda>c. sc_url c = url r') scs')"
    by (rule qualityBeforeClamp_mono) (use assms(3,4,5) in auto)
  have range: "0 \<le> qualityScore x \<and> qualityScore x \<le> 1"
    if "x \<in> set (rankResources rs scs)" for x
  proof -
    from that obtain y where y: "y \<in> set rs" "x = rankOne y scs"
      by (auto simp: rankResources_def)
    then have "0 \<le> relevanceScore y" using assms(6) by blast
    then show ?thesis
      unfolding y(2) qualityScore_rankOne
      using qualityBeforeClamp_nonneg [of y] by simp
  qed
  show ?thesis
    using rankOne_in_rankResources [OF assms(1)] rankOne_in_rankResources [OF assms(2)]
      mono range
    by (simp add: qualityScore_rankOne min_le_iff_disj)
qed

theorem rankResources_monotone_clamped_witness:
  "rankOne plainResult [thinScrape] \<in> set (rankResources [plainResult] [thinScrape])
   \<and> rankOne trustedResult [richScrape] \<in> set (rankResources [trustedResult] [richScrape])
   \<and> qualityScore (rankOne plainResult [thinScrape]) = 7 / 10
   \<and> qualityScore (rankOne trustedResult [richScrape]) = 1
   \<and> qualityScore (rankOne plainResult [thinScrape])
       \<le> qualityScore (rankOne trustedResult [richScrape])"
  using rankResources_monotone_clamped
    [of plainResult "[plainResult]" trustedResult "[trustedResult]" "[thinScrape]" "[richScrape]"]
  by (simp add: qualityScore_rankOne qualityBeforeClamp_def Let_def
      trustedResult_def plainResult_def thinScrape_def richScrape_def
      isTrusted_def trustedDomains_def includes_str_def)

section \<open>Properties of performWebSearch\<close>

lemma getCuratedSources_nonempty:
  assumes "k \<in> set curatedKeywords" and "includes_str (toLowerCase query) k"
  shows "getCuratedSources query \<noteq> []"
proof -
  have "k = ''javascript'' \<or> k = ''js'' \<or> k = ''python'' \<or> k = ''data science''
        \<or> k = ''machine learning'' \<or> k = ''react'' \<or> k = ''frontend''
        \<or> k = ''leadership'' \<or> k = ''management''"
    using assms(1) by (simp add: curatedKeywords_def)
  then show ?thesis
    using assms(2)
    by (elim disjE) (simp_all add: getCuratedSources_def Let_def)
qed

lemma sliceTo_nonempty: "xs \<noteq> [] \<Longrightarrow> 1 \<le> e \<Longrightarrow> sliceTo xs e \<noteq> []"
  by (cases xs) (auto simp: sliceTo_def nat_le_iff take_Cons split: nat.split)

lemma set_sliceTo: "set (sliceTo xs e) \<subseteq> set xs"
  by (auto simp: sliceTo_def dest: in_set_takeD)

text \<open>
  C5 (as stated) fails for a limit below 1: with \<open>maxResults = 0\<close> and a live search
  that yields no entry, the result is the empty array although the query contains a
  curated keyword.
\<close>

theorem performWebSearch_limit_counterexample:
  "''python'' \<in> set curatedKeywords
   \<and> includes_str (toLowerCase ''Learn Python'') ''python''
   \<and> httpGetSearch quietWorld (''Learn Python'' @ '' roadmap guide tutorial'') = Inr emptyAnswer
   \<and> liveResults emptyAnswer ''Learn Python'' 0 = []
   \<and> performWebSearch quietWorld ''Learn Python'' 0 = Inr []"
proof -
  have "toLowerCase ''Learn Python'' = ''learn python''" by code_simp
  moreover have "getCuratedSources ''Learn Python'' \<noteq> []" by code_simp
  ultimately show ?thesis
    by (simp add: curatedKeywords_def includes_str_def
        quietWorld_def offlineWorld_def emptyAnswer_def liveResults_def instantAnswer_def
        performWebSearch_def sliceTo_def Let_def)
qed

text \<open>
  C5 (amended): for every query string and limit \<open>n\<close>, \<open>performWebSearch\<close> resolves to
  an array and never throws; and whenever the live search provider errors, or the
  limit is at least 1 and the provider yields zero usable entries, the result contains
  at least one entry, all of them curated, for any query that contains, compared in
  lower case, one of the curated table's keyword substrings.
\<close>

theorem performWebSearch_fallback_floor:
  "(\<exists>rs. performWebSearch w query n = Inr rs)
   \<and> (k \<in> set curatedKeywords \<and> includes_str (toLowerCase query) k
      \<and> ((\<exists>e. httpGetSearch w (query @ '' roadmap guide tutorial'') = Inl e)
         \<or> (1 \<le> n \<and> (\<exists>d. httpGetSearch w (query @ '' roadmap guide tutorial'') = Inr d
                        \<and> liveResults d query n = [])))
      \<longrightarrow> (\<exists>rs. performWebSearch w query n = Inr rs \<and> rs \<noteq> []
               \<and> set rs \<subseteq> set (getCuratedSources query)))"
proof (intro conjI impI)
  show "\<exists>rs. performWebSearch w query n = Inr rs"
    by (simp add: performWebSearch_def Let_def split: sum.split)
next
  assume h: "k \<in> set curatedKeywords \<and> includes_str (toLowerCase query) k
      \<and> ((\<exists>e. httpGetSearch w (query @ '' roadmap guide tutorial'') = Inl e)
         \<or> (1 \<le> n \<and> (\<exists>d. httpGetSearch w (query @ '' roadmap guide tutorial'') = Inr d
                        \<and> liveResults d query n = [])))"
  then have ne: "getCuratedSources query \<noteq> []"
    using getCuratedSources_nonempty by blast
  from h consider (err) e where "httpGetSearch w (query @ '' roadmap guide tutorial'') = Inl e"
    | (zero) d where "1 \<le> n" "httpGetSearch w (query @ '' roadmap guide tutorial'') = Inr d"
        "liveResults d query n = []"
    by blast
  then show "\<exists>rs. performWebSearch w query n = Inr rs \<and> rs \<noteq> []
               \<and> set rs \<subseteq> set (getCuratedSources query)"
  proof cases
    case err
    then show ?thesis using ne by (simp add: performWebSearch_def)
  next
    case zero
    have n1: "1 \<le> n" using zero(1) .
    have "sliceTo (sliceTo (getCuratedSources query) n) n \<noteq> []"
      by (intro sliceTo_nonempty ne n1)
    moreover have "set (sliceTo (sliceTo (getCuratedSources query) n) n)
                     \<subseteq> set (getCuratedSources query)"
      using set_sliceTo [of "sliceTo (getCuratedSources query) n" n]
        set_sliceTo [of "getCuratedSources query" n] by blast
    ultimately show ?thesis
      using zero(2,3) by (simp add: performWebSearch_def Let_def)
  qed
qed

theorem performWebSearch_fallback_floor_witness:
  "performWebSearch offlineWorld ''Learn PYTHON'' 0 = Inr (getCuratedSources ''Learn PYTHON'')
   \<and> getCuratedSources ''Learn PYTHON'' \<noteq> []
   \<and> liveResults emptyAnswer ''Learn PYTHON'' 1 = []
   \<and> (\<exists>rs. performWebSearch quietWorld ''Learn PYTHON'' 1 = Inr rs \<and> rs \<noteq> []
          \<and> set rs \<subseteq> set (getCuratedSources ''Learn PYTHON''))"
proof -
  have lc: "toLowerCase ''Learn PYTHON'' = ''learn python''" by code_simp
  have ne: "getCuratedSources ''Learn PYTHON'' \<noteq> []" by code_simp
  have lv: "liveResults emptyAnswer ''Learn PYTHON'' 1 = []"
    by (simp add: liveResults_def instantAnswer_def emptyAnswer_def sliceTo_def)
  have off: "httpGetSearch offlineWorld q = Inl (Error ''timeout of 10000ms exceeded'')" for q
    by (simp add: offlineWorld_def)
  have qu: "httpGetSearch quietWorld q = Inr emptyAnswer" for q
    by (simp add: quietWorld_def)
  have kw: "''python'' \<in> set curatedKeywords \<and> includes_str ''learn python'' ''python''"
    by (simp add: curatedKeywords_def includes_str_def)
  show ?thesis
    using performWebSearch_fallback_floor [of offlineWorld "''Learn PYTHON''" 0 "''python''"]
      performWebSearch_fallback_floor [of quietWorld "''Learn PYTHON''" 1 "''python''"]
      lc ne lv kw
    by (simp add: off qu performWebSearch_def)
qed

section \<open>Properties of scrapeAndSummarize\<close>

lemma summarizeContent_resolves: "\<exists>sm. summarizeContent w txt t = Inr sm"
  by (simp add: summarizeContent_def split: sum.split)

lemma scrapeTry_fetched:
  assumes "httpGetPage w u = Inr pg"
  shows "\<exists>sm. scrapeTry w u t =
           Inr \<lparr> sc_url = u, sc_title = t,
                 content = take 1000 (cleanContent (extractedBody pg)), summary = sm,
                 headers = take 10 (extractHeaders pg),
                 wordCount = length (split (cleanContent (extractedBody pg)) '' ''),
                 scrapedAt = now w, error = None \<rparr>"
proof -
  obtain sm where "summarizeContent w (cleanContent (extractedBody pg)) t = Inr sm"
    using summarizeContent_resolves by blast
  then show ?thesis using assms by (simp add: scrapeTry_def Let_def)
qed

lemma scrapeTry_Inl: "scrapeTry w u t = Inl e \<longleftrightarrow> httpGetPage w u = Inl e"
proof (cases "httpGetPage w u")
  case (Inl e')
  then show ?thesis by (simp add: scrapeTry_def)
next
  case (Inr pg)
  then show ?thesis using scrapeTry_fetched [OF Inr, of t] by auto
qed

lemma rx_replace_no_match:
  assumes "\<forall>bef t. t \<noteq> [] \<and> set t \<subseteq> set s \<longrightarrow> rxm r bef t [] = []"
      and "\<forall>bef. rxm r bef [] [] = []"
  shows "rx_replace r f bef s = s"
  using assms
proof (induction s arbitrary: bef)
  case Nil
  then show ?case by simp
next
  case (Cons x xs)
  have "rxm r bef (x # xs) [] = []" using Cons.prems(1) by simp
  moreover have "rx_replace r f (x # bef) xs = xs"
  proof (rule Cons.IH)
    show "\<forall>bef t. t \<noteq> [] \<and> set t \<subseteq> set xs \<longrightarrow> rxm r bef t [] = []"
      using Cons.prems(1) by auto
    show "\<forall>bef. rxm r bef [] [] = []" using Cons.prems(2) .
  qed
  ultimately show ?case by simp
qed

lemma replaceAll_Plus_none:
  assumes "\<forall>c \<in> set s. \<not> P c"
  shows "replaceAll (Plus P) m t s = s"
  unfolding replaceAll_def
proof (rule rx_replace_no_match)
  show "\<forall>bef u. u \<noteq> [] \<and> set u \<subseteq> set s \<longrightarrow> rxm (Plus P) bef u [] = []"
  proof (intro allI impI)
    fix bef and u :: string
    assume "u \<noteq> [] \<and> set u \<subseteq> set s"
    then obtain x xs where "u = x # xs" "\<not> P x" using assms by (cases u) auto
    then show "rxm (Plus P) bef u [] = []" by simp
  qed
  show "\<forall>bef. rxm (Plus P) bef [] [] = []" by simp
qed

lemma trim_replicate:
  "\<not> isWhiteSpace c \<Longrightarrow> trim (replicate n c) = replicate n c"
  by (cases n) (simp_all add: trim_def replicate_append_same)

lemma cleanContent_replicate_a:
  "cleanContent (replicate n (CHR ''a'')) = replicate (min 3000 n) (CHR ''a'')"
  by (simp add: cleanContent_def replaceAll_Plus_none isWhiteSpace_def isNewline_def)

lemma splitAcc_no_sep:
  "\<forall>c \<in> set s. c \<noteq> x \<Longrightarrow> splitAcc [x] cur s = [rev cur @ s]"
  by (induction s arbitrary: cur) auto

lemma extractedBody_longPage: "extractedBody longPage = replicate 1001 (CHR ''a'')"
  by (simp add: extractedBody_def contentSelectors_def longPage_def trim_replicate
      isWhiteSpace_def Let_def)

text \<open>
  C8 (as stated) fails: the \<open>content\<close> field holds only the first 1000 characters
  (\<open>content.substring(0, 1000)\<close>), so a body of 1001 characters, between 1000 and 3000,
  is not returned in full.
\<close>

theorem scrape_content_counterexample:
  "httpGetPage longWorld ''u'' = Inr longPage
   \<and> extractedBody longPage = replicate 1001 (CHR ''a'')
   \<and> scrapeAndSummarize longWorld ''u'' ''T'' =
       Inr \<lparr> sc_url = ''u'', sc_title = ''T'', content = replicate 1000 (CHR ''a''),
             summary = ''A summary.'', headers = [], wordCount = 1,
             scrapedAt = ''2025-01-01T00:00:00.000Z'', error = None \<rparr>
   \<and> replicate 1000 (CHR ''a'') \<noteq> take 3000 (extractedBody longPage)"
proof -
  have w: "httpGetPage longWorld ''u'' = Inr longPage"
    by (simp add: longWorld_def offlineWorld_def)
  have sm: "summarizeContent longWorld (replicate 1001 (CHR ''a'')) ''T'' = Inr ''A summary.''"
    by (simp add: summarizeContent_def longWorld_def offlineWorld_def trim_def isWhiteSpace_def)
  have sp: "split (replicate 1001 (CHR ''a'')) '' '' = [replicate 1001 (CHR ''a'')]"
    unfolding split_def by (subst splitAcc_no_sep) simp_all
  have ne: "replicate 1000 (CHR ''a'') \<noteq> replicate 1001 (CHR ''a'')"
    by (simp add: replicate_eq_replicate)
  have nw: "now longWorld = ''2025-01-01T00:00:00.000Z''"
    by (simp add: longWorld_def offlineWorld_def)
  have hs: "extractHeaders longPage = []"
    by (simp add: extractHeaders_def longPage_def)
  show ?thesis
    using w sm sp ne nw hs
    by (simp add: scrapeAndSummarize_def scrapeTry_def extractedBody_longPage
        cleanContent_replicate_a Let_def)
qed

text \<open>
  C8 (amended): for every successful scrape, the \<open>content\<close> field of the record
  returned by \<open>scrapeAndSummarize\<close> is the first 1000 characters of the cleaned body
  text, which itself is cut at the 3000-character cap (the cap bounds what is
  summarised and counted, not the \<open>content\<close> field); a cleaned body of at most 1000
  characters is returned in full.
\<close>

theorem scrape_content_cap:
  assumes "httpGetPage w u = Inr pg"
  shows "\<exists>r. scrapeAndSummarize w u t = Inr r \<and> error r = None
           \<and> content r = take 1000 (cleanContent (extractedBody pg))
           \<and> length (cleanContent (extractedBody pg)) \<le> 3000
           \<and> length (content r) \<le> 1000
           \<and> (length (cleanContent (extractedBody pg)) \<le> 1000
                \<longrightarrow> content r = cleanContent (extractedBody pg))"
proof -
  obtain sm where "scrapeTry w u t =
           Inr \<lparr> sc_url = u, sc_title = t,
                 content = take 1000 (cleanContent (extractedBody pg)), summary = sm,
                 headers = take 10 (extractHeaders pg),
                 wordCount = length (split (cleanContent (extractedBody pg)) '' ''),
                 scrapedAt = now w, error = None \<rparr>"
    using scrapeTry_fetched [OF assms] by blast
  then show ?thesis
    by (simp add: scrapeAndSummarize_def cleanContent_def)
qed

theorem scrape_content_cap_witness:
  "httpGetPage longWorld ''u'' = Inr longPage
   \<and> (\<exists>r. scrapeAndSummarize longWorld ''u'' ''T'' = Inr r \<and> error r = None
          \<and> content r = replicate 1000 (CHR ''a'') \<and> length (content r) \<le> 1000)"
  using scrape_content_cap [of longWorld "''u''" longPage "''T''"]
  by (simp add: extractedBody_longPage cleanContent_replicate_a longWorld_def offlineWorld_def)

text \<open>
  C2: for every url and title \<open>scrapeAndSummarize\<close> resolves to a record and never
  rejects. In every failure case (an exception anywhere in the \<open>try\<close> block, as for an
  unreachable host or a malformed URL) the record has empty content, the \<open>error\<close>
  field set to the exception's message, and the placeholder summary built from the
  title. A page with no extractable body is not an exception: the record then has
  empty content and a placeholder summary that starts with the title.
\<close>

theorem scrapeAndSummarize_never_rejects:
  "(\<exists>r. scrapeAndSummarize w u t = Inr r)
   \<and> (\<forall>e. httpGetPage w u = Inl e \<longrightarrow> scrapeTry w u t = Inl e)
   \<and> (\<forall>e. scrapeTry w u t = Inl e \<longrightarrow>
         (\<exists>r. scrapeAndSummarize w u t = Inr r \<and> content r = [] \<and> error r = Some (message e)
             \<and> summary r = ''Unable to scrape content from '' @ t
                             @ ''. This resource may require manual review.''))
   \<and> (\<forall>pg. httpGetPage w u = Inr pg \<and> extractedBody pg = [] \<longrightarrow>
         (\<exists>r. scrapeAndSummarize w u t = Inr r \<and> content r = []
             \<and> summary r = t @ '': Content not available for summary.''))"
proof (intro conjI allI impI)
  show "\<exists>r. scrapeAndSummarize w u t = Inr r"
    by (simp add: scrapeAndSummarize_def split: sum.split)
next
  fix e assume "httpGetPage w u = Inl e"
  then show "scrapeTry w u t = Inl e" by (simp add: scrapeTry_Inl)
next
  fix e assume "scrapeTry w u t = Inl e"
  then show "\<exists>r. scrapeAndSummarize w u t = Inr r \<and> content r = [] \<and> error r = Some (message e)
             \<and> summary r = ''Unable to scrape content from '' @ t
                             @ ''. This resource may require manual review.''"
    by (simp add: scrapeAndSummarize_def scrapeFailure_def)
next
  fix pg assume "httpGetPage w u = Inr pg \<and> extractedBody pg = []"
  then show "\<exists>r. scrapeAndSummarize w u t = Inr r \<and> content r = []
             \<and> summary r = t @ '': Content not available for summary.''"
    by (simp add: scrapeAndSummarize_def scrapeTry_def cleanContent_def replaceAll_def
        summarizeContent_def Let_def)
qed

theorem scrapeAndSummarize_never_rejects_witness:
  "httpGetPage offlineWorld ''not a url'' = Inl (Error ''Invalid URL'')
   \<and> scrapeAndSummarize offlineWorld ''not a url'' ''X'' =
       Inr \<lparr> sc_url = ''not a url'', sc_title = ''X'', content = [],
             summary = ''Unable to scrape content from X. This resource may require manual review.'',
             headers = [], wordCount = 0, scrapedAt = ''2025-01-01T00:00:00.000Z'',
             error = Some ''Invalid URL'' \<rparr>
   \<and> (\<exists>r. scrapeAndSummarize quietWorld ''https://a.io'' ''X'' = Inr r \<and> content r = []
          \<and> summary r = ''X: Content not available for summary.'')"
  using scrapeAndSummarize_never_rejects [of offlineWorld "''not a url''" "''X''"]
    scrapeAndSummarize_never_rejects [of quietWorld "''https://a.io''" "''X''"]
  by (simp add: offlineWorld_def quietWorld_def scrapeAndSummarize_def scrapeTry_def
      scrapeFailure_def extractedBody_def contentSelectors_def emptyPage_def trim_def Let_def)

section \<open>Properties of extractJSON\<close>

lemma startsWith_Cons: "startsWith s (x # p) \<longleftrightarrow> (\<exists>t. s = x # t \<and> startsWith t p)"
  by (cases s) auto

lemma rxm_Cat_Lit:
  "rxm (Cat (Lit l) r) bef s c \<noteq> [] \<Longrightarrow> startsWith s l"
  by (simp split: if_splits)

lemma rxm_Cat_Lit_rest:
  "rxm (Cat (Lit l) r) bef s c \<noteq> [] \<Longrightarrow>
     rxm r (rev (take (length l) s) @ bef) (drop (length l) s) c \<noteq> []"
  by (simp split: if_splits)

lemma rxm_lazy_then_Lit:
  assumes "rxm (Cat (Grp i (StarLazy P)) (Lit l)) bef s c \<noteq> []"
  shows "\<exists>n. startsWith (drop n s) l"
proof (rule ccontr)
  assume "\<not> (\<exists>n. startsWith (drop n s) l)"
  then have no: "\<And>n. \<not> startsWith (drop n s) l" by blast
  have "rxm (Cat (Grp i (StarLazy P)) (Lit l)) bef s c = []"
    by (simp add: no)
  with assms show False by simp
qed

lemma single_hit:
  assumes "rxm rxSingleFence bef s c \<noteq> []"
  shows "\<exists>rest. s = CHR 0x60 # rest \<and> CHR 0x60 \<in> set rest"
proof -
  from assms have "startsWith s [CHR 0x60]"
    unfolding rxSingleFence_def by (rule rxm_Cat_Lit)
  then obtain rest where s: "s = CHR 0x60 # rest" by (auto simp: startsWith_Cons)
  from assms have "rxm (Cat (Grp 1 (StarLazy isAnyChar)) (Lit [CHR 0x60]))
                     (rev (take (length [CHR 0x60]) s) @ bef) (drop (length [CHR 0x60]) s) c \<noteq> []"
    unfolding rxSingleFence_def by (rule rxm_Cat_Lit_rest)
  then obtain n where "startsWith (drop n (drop (length [CHR 0x60]) s)) [CHR 0x60]"
    using rxm_lazy_then_Lit by blast
  then obtain t where "drop n rest = CHR 0x60 # t" using s by (auto simp: startsWith_Cons)
  then have "CHR 0x60 \<in> set (drop n rest)" by simp
  then have "CHR 0x60 \<in> set rest" by (rule in_set_dropD)
  with s show ?thesis by blast
qed

lemma triple_hit:
  assumes "rxm rxTripleFence bef s c \<noteq> []"
  shows "\<exists>rest. s = CHR 0x60 # CHR 0x60 # rest"
proof -
  from assms have "startsWith s [CHR 0x60, CHR 0x60, CHR 0x60]"
    unfolding rxTripleFence_def by (rule rxm_Cat_Lit)
  then show ?thesis by (auto simp: startsWith_Cons)
qed
lemma search_single_none:
  "countChar (CHR 0x60) s < 2 \<Longrightarrow> rx_search rxSingleFence bef s = None"
proof (induction s arbitrary: bef)
  case Nil
  show ?case using single_hit [of bef "[]" "[]"] by (cases "rxm rxSingleFence bef [] []") auto
next
  case (Cons x xs)
  have "rxm rxSingleFence bef (x # xs) [] = []"
  proof (rule ccontr)
    assume "rxm rxSingleFence bef (x # xs) [] \<noteq> []"
    from single_hit [OF this] have "x = CHR 0x60" "CHR 0x60 \<in> set xs" by auto
    then have "countChar (CHR 0x60) (x # xs) \<ge> 2"
      by (auto simp: countChar_def filter_empty_conv Suc_le_eq)
    with Cons.prems show False by simp
  qed
  moreover have "rx_search rxSingleFence (x # bef) xs = None"
    by (rule Cons.IH) (use Cons.prems in \<open>auto simp: countChar_def split: if_splits\<close>)
  ultimately show ?case by simp
qed

lemma search_triple_none:
  "countChar (CHR 0x60) s < 2 \<Longrightarrow> rx_search rxTripleFence bef s = None"
proof (induction s arbitrary: bef)
  case Nil
  show ?case using triple_hit [of bef "[]" "[]"] by (cases "rxm rxTripleFence bef [] []") auto
next
  case (Cons x xs)
  have "rxm rxTripleFence bef (x # xs) [] = []"
  proof (rule ccontr)
    assume "rxm rxTripleFence bef (x # xs) [] \<noteq> []"
    from triple_hit [OF this] obtain rest where "x # xs = CHR 0x60 # CHR 0x60 # rest" by blast
    then have "countChar (CHR 0x60) (x # xs) \<ge> 2"
      by (auto simp: countChar_def)
    with Cons.prems show False by simp
  qed
  moreover have "rx_search rxTripleFence (x # bef) xs = None"
    by (rule Cons.IH) (use Cons.prems in \<open>auto simp: countChar_def split: if_splits\<close>)
  ultimately show ?case by simp
qed

lemma fencedContent_plain: "countChar (CHR 0x60) txt < 2 \<Longrightarrow> fencedContent txt = txt"
  by (simp add: fencedContent_def rx_match_def search_single_none search_triple_none)

lemma JSON_parse_Nil: "JSON_parse [] = None"
  by (simp add: JSON_parse_def)

text \<open>
  C3 (as stated) fails: a well-formed JSON text that holds two backticks inside a
  string is cut down to the text between the backticks before the first parse. The
  JSON text of the string \<open>`1`\<close> is parsed by \<open>JSON.parse\<close> to that string, and by
  \<open>extractJSON\<close> to the number 1.
\<close>

theorem extractJSON_backtick_counterexample:
  "JSON_parse backtickString = Some (JStr [CHR 0x60, CHR ''1'', CHR 0x60])
   \<and> extractJSON backtickString = Some (JNum 1)
   \<and> extractJSON backtickString \<noteq> JSON_parse backtickString"
proof -
  have "JSON_parse backtickString = Some (JStr [CHR 0x60, CHR ''1'', CHR 0x60])"
    unfolding backtickString_def by code_simp
  moreover have "extractJSON backtickString = Some (JNum 1)"
    unfolding backtickString_def by code_simp
  ultimately show ?thesis by simp
qed

text \<open>
  C3 (amended): for every input text that is well-formed JSON and contains fewer than
  two backtick characters, \<open>extractJSON\<close> returns the value of \<open>JSON.parse\<close> on the
  text, obtained by the first (direct-parse) method on the unchanged text.
\<close>

theorem extractJSON_valid_input:
  assumes "countChar (CHR 0x60) txt < 2" and "JSON_parse txt = Some v"
  shows "extractJSON txt = Some v \<and> fencedContent txt = txt"
proof -
  have "txt \<noteq> []" using assms(2) JSON_parse_Nil by auto
  then show ?thesis
    using assms by (simp add: extractJSON_def fencedContent_plain)
qed

theorem extractJSON_valid_input_witness:
  "countChar (CHR 0x60) smallObject < 2
   \<and> JSON_parse smallObject = Some (JObj [(''a'', JArr [JNum 1, JNum 2])])
   \<and> extractJSON smallObject = Some (JObj [(''a'', JArr [JNum 1, JNum 2])])"
proof -
  have c: "countChar (CHR 0x60) smallObject < 2"
    by (simp add: countChar_def smallObject_def)
  have p: "JSON_parse smallObject = Some (JObj [(''a'', JArr [JNum 1, JNum 2])])"
    unfolding smallObject_def by code_simp
  show ?thesis
    using extractJSON_valid_input [OF c p] c p by simp
qed

subsection \<open>The loop of cleanupJSON on an array that holds a replacement pattern\<close>

lemma length_loopA_pow: "length (concat (replicate k loopA)) = 12 * k"
  by (induction k) (simp_all add: loopA_def)

lemma exec_loopX:
  "rx_search arrayRegex bef (loopX @ rest) = Some (0, 12, [(1, ''1 1 1 1 $&'')])"
  by (simp add: arrayRegex_def loopX_def noneOf_def)

lemma exec_loopState:
  "rx_exec arrayRegex (loopState k) (12 * k) = Some (12 * k, 12, [(1, ''1 1 1 1 $&'')])"
  by (simp add: rx_exec_def loopState_def length_loopA_pow exec_loopX)

lemma fix_loop_content: "fixArrayContent ''1 1 1 1 $&'' = ''1, 1, 1, 1 $&''"
  by code_simp

lemma indexOf_loopA: "indexOf (loopA @ s) loopX = map_option (\<lambda>i. 12 + i) (indexOf s loopX)"
  by (cases "indexOf s loopX") (simp_all add: loopA_def loopX_def)

lemma indexOf_loopA_pow:
  "indexOf (concat (replicate k loopA) @ loopX @ rest) loopX = Some (12 * k)"
proof (induction k)
  case 0
  show ?case by (simp add: loopX_def)
next
  case (Suc k)
  then show ?case by (simp add: indexOf_loopA)
qed

lemma loopA_pow_comm: "concat (replicate k loopA) @ loopA = loopA @ concat (replicate k loopA)"
  by (induction k) simp_all

lemma replace_loopState:
  "replaceStr (loopState k) ''[1 1 1 1 $&]'' ''[1, 1, 1, 1 $&]'' = loopState (Suc k)"
proof -
  have x: "''[1 1 1 1 $&]'' = loopX" by (simp add: loopX_def)
  have lx: "length loopX = 12" by (simp add: loopX_def)
  have a: "''[1, 1, 1, 1 '' = loopA" by (simp add: loopA_def)
  have sub: "getSubstitution 0 b loopX a [] ''[1, 1, 1, 1 $&]'' = loopA @ loopX @ '']''" for a b
    by (simp add: loopA_def isDigit_def)
  have "replaceStr (loopState k) loopX ''[1, 1, 1, 1 $&]''
          = concat (replicate k loopA) @ (loopA @ loopX @ '']'') @ replicate k (CHR '']'')"
    unfolding replaceStr_def loopState_def indexOf_loopA_pow
    by (simp add: length_loopA_pow lx sub a)
  also have "\<dots> = loopState (Suc k)"
    using loopA_pow_comm [of k] by (simp add: loopState_def replicate_append_same)
  finally show ?thesis unfolding x .
qed

lemma loop_never_returns:
  assumes "fixArraysLoop cleaned li = Some y"
  shows "\<forall>k. (cleaned, li) \<noteq> (loopState k, 12 * k)"
proof (rule fixArraysLoop.raw_induct
         [where P = "\<lambda>cleaned li y. \<forall>k. (cleaned, li) \<noteq> (loopState k, 12 * k)", OF _ assms])
  fix f :: "string \<Rightarrow> nat \<Rightarrow> string option" and cl :: string and i :: nat and r :: string
  assume ih: "\<And>cl' i' r'. f cl' i' = Some r' \<Longrightarrow> \<forall>k. (cl', i') \<noteq> (loopState k, 12 * k)"
    and body: "(case rx_exec arrayRegex cl i of
                  None \<Rightarrow> Some cl
                | Some (idx, n, c) \<Rightarrow>
                    if cap c 1 \<noteq> [] then
                      f (replaceStr cl (''['' @ cap c 1 @ '']'')
                           (''['' @ fixArrayContent (cap c 1) @ '']'')) (idx + n)
                    else f cl (idx + n)) = Some r"
  show "\<forall>k. (cl, i) \<noteq> (loopState k, 12 * k)"
  proof (intro allI notI)
    fix k assume eq: "(cl, i) = (loopState k, 12 * k)"
    have "f (loopState (Suc k)) (12 * k + 12) = Some r"
      using body eq
      by (simp add: exec_loopState cap_def fix_loop_content replace_loopState)
    then have "f (loopState (Suc k)) (12 * Suc k) = Some r" by (simp add: add.commute)
    from ih [OF this] show False by blast
  qed
qed

lemma fixArraysLoop_diverges: "fixArraysLoop ''[1 1 1 1 $&]'' 0 = None"
proof (cases "fixArraysLoop ''[1 1 1 1 $&]'' 0")
  case None then show ?thesis .
next
  case (Some y)
  from loop_never_returns [OF Some]
  have "(''[1 1 1 1 $&]'', 0 :: nat) \<noteq> (loopState 0, 12 * 0)" by blast
  then show ?thesis by (simp add: loopState_def loopX_def)
qed

lemma cleanupReplacements_loopX: "cleanupReplacements ''[1 1 1 1 $&]'' = ''[1 1 1 1 $&]''"
  by code_simp

lemma fencedContent_loopX: "fencedContent ''[1 1 1 1 $&]'' = ''[1 1 1 1 $&]''"
  by code_simp

lemma JSON_parse_loopX: "JSON_parse ''[1 1 1 1 $&]'' = None"
  by code_simp

text \<open>
  C10 fails on the code: \<open>extractJSON\<close> does not return on the text
  \<open>[1 1 1 1 $&]\<close>. The direct parse fails; in \<open>cleanupJSON\<close> the loop finds the
  array, inserts the commas and calls \<open>cleaned.replace\<close> with the fixed text as the
  replacement, in which \<open>$&\<close> stands for the matched text. The new \<open>cleaned\<close> holds
  the old array again, at the position where \<open>arrayRegex.lastIndex\<close> now points, so
  every round finds the same array: after \<open>k\<close> rounds \<open>cleaned\<close> is
  \<open>loopState k\<close> and \<open>lastIndex\<close> is \<open>12 * k\<close>. Strings of the model have no
  maximal length, so the loop never ends. (A runtime that bounds the length of strings
  stops the loop with a RangeError only when \<open>cleaned\<close> has grown to that bound, 13
  characters a round, every round searching and copying the whole text.)
\<close>

theorem extractJSON_diverges: "extractJSON loopX = None"
  by (simp add: loopX_def extractJSON_def fencedContent_loopX JSON_parse_loopX cleanupJSON_def
      cleanupReplacements_loopX fixArraysLoop_diverges)

section \<open>Properties of the compare-resources route\<close>










section \<open>Properties of generateComprehensiveRoadmap\<close>

lemma getProp_resolves: "v \<noteq> JNull \<Longrightarrow> \<exists>p. getProp v k = Inr p"
  by (cases v) (simp_all add: getProp_def)

lemma totalStepsOf_nonnull:
  assumes "j \<noteq> JNull"
  shows "\<exists>n. totalStepsOf j = Inr n"
proof -
  obtain st where st: "getProp j ''steps'' = Inr st" using assms getProp_resolves by blast
  show ?thesis
  proof (cases "nullish st")
    case True
    then show ?thesis using st by (simp add: totalStepsOf_def)
  next
    case False
    then have "the st \<noteq> JNull" by (cases st) (auto simp: nullish_def)
    then obtain p where "getProp (the st) ''length'' = Inr p" using getProp_resolves by blast
    then show ?thesis using st False by (cases p) (simp_all add: totalStepsOf_def)
  qed
qed

lemma totalStepsOf_resolves:
  assumes "truthy j"
  shows "\<exists>n. totalStepsOf j = Inr n"
proof -
  have "j \<noteq> JNull" using assms by (auto simp: truthy_def)
  then show ?thesis by (rule totalStepsOf_nonnull)
qed

lemma totalStepsOf_null: "\<exists>e. totalStepsOf JNull = Inl e"
  by (simp add: totalStepsOf_def getProp_def)

lemma performWebSearch_resolves: "\<exists>rs. performWebSearch w q n = Inr rs"
  by (simp add: performWebSearch_def Let_def split: sum.split)

lemma webEnhancedTry_unfold:
  "webEnhancedTry w tp opts =
     (case chat w (primaryPrompt w tp opts) of
        Inl e \<Rightarrow> Some (Inl e)
      | Inr reply \<Rightarrow>
          (case extractJSON reply of
             None \<Rightarrow> None
           | Some rm \<Rightarrow>
               (case totalStepsOf rm of
                  Inl e \<Rightarrow> Some (Inl e)
                | Inr n \<Rightarrow>
                    Some (Inr ((baseResult w tp opts)
                                 \<lparr> roadmap := rm, sources := take 10 (rankedResourcesOf w tp),
                                   methodology := ''web-enhanced-llm'', totalSteps := n \<rparr>)))))"
proof -
  obtain rs where rs: "performWebSearch w tp 8 = Inr rs"
    using performWebSearch_resolves by blast
  show ?thesis
    by (simp add: webEnhancedTry_def rankedResourcesOf_def primaryPrompt_def
        generateRoadmapWithSources_def rs Let_def split: sum.split option.split)
qed

lemma webEnhancedTry_fails:
  "(\<exists>e. webEnhancedTry w tp opts = Some (Inl e)) \<longleftrightarrow>
     (\<exists>e. chat w (primaryPrompt w tp opts) = Inl e)
     \<or> (\<exists>reply. chat w (primaryPrompt w tp opts) = Inr reply \<and> extractJSON reply = Some JNull)"
proof (cases "chat w (primaryPrompt w tp opts)")
  case (Inl e)
  then show ?thesis by (simp add: webEnhancedTry_unfold)
next
  case (Inr reply)
  show ?thesis
  proof (cases "extractJSON reply")
    case None
    then show ?thesis using Inr by (simp add: webEnhancedTry_unfold)
  next
    case (Some j)
    show ?thesis
    proof (cases "j = JNull")
      case True
      obtain e where "totalStepsOf JNull = Inl e" using totalStepsOf_null by blast
      then show ?thesis using Inr Some True by (simp add: webEnhancedTry_unfold)
    next
      case False
      then obtain n where "totalStepsOf j = Inr n" using totalStepsOf_nonnull by blast
      then show ?thesis using Inr Some False by (simp add: webEnhancedTry_unfold)
    qed
  qed
qed

lemma totalStepsOf_skeleton: "totalStepsOf (skeleton tp opts) = Inr (JNum 1)"
  by (simp add: totalStepsOf_def skeleton_def getProp_def nullish_def truthy_def)

lemma truthy_skeleton: "truthy (skeleton tp opts)"
  by (simp add: truthy_def skeleton_def)

text \<open>
  C1 (as stated) fails in two ways. When the model cannot be reached at all, the call
  to \<open>chat\<close> in \<open>generateFallbackRoadmap\<close> throws inside the \<open>catch\<close> block and
  \<open>generateComprehensiveRoadmap\<close> rejects. When the fallback reply parses to a truthy
  value without steps (the JSON text \<open>{}\<close>), that value is returned as the roadmap: it
  has no step and \<open>totalSteps\<close> is 0; the skeleton is used only when \<open>extractJSON\<close>
  returns a falsy value.
\<close>

theorem generateComprehensiveRoadmap_counterexample:
  "webEnhancedTry offlineWorld ''Cooking'' defaultOptions
     = Some (Inl (Error ''Failed to connect to OpenRouter: fetch failed''))
   \<and> generateComprehensiveRoadmap offlineWorld ''Cooking'' defaultOptions
     = Some (Inl (Error ''Failed to connect to OpenRouter: fetch failed''))
   \<and> webEnhancedTry emptyObjectWorld ''Cooking'' defaultOptions
     = Some (Inl (Error ''Failed to connect to OpenRouter: fetch failed''))
   \<and> generateComprehensiveRoadmap emptyObjectWorld ''Cooking'' defaultOptions
     = Some (Inr ((baseResult emptyObjectWorld ''Cooking'' defaultOptions)
                    \<lparr> roadmap := JObj [], sources := [], methodology := ''llm-fallback'',
                      totalSteps := JNum 0,
                      warning := Some ''Generated without web sources due to connectivity issues'' \<rparr>))
   \<and> proposedSteps (JObj []) = []"
proof -
  have 1: "webEnhancedTry offlineWorld ''Cooking'' defaultOptions
     = Some (Inl (Error ''Failed to connect to OpenRouter: fetch failed''))"
    by code_simp
  have 2: "generateComprehensiveRoadmap offlineWorld ''Cooking'' defaultOptions
     = Some (Inl (Error ''Failed to connect to OpenRouter: fetch failed''))"
    by code_simp
  have 3: "webEnhancedTry emptyObjectWorld ''Cooking'' defaultOptions
     = Some (Inl (Error ''Failed to connect to OpenRouter: fetch failed''))"
    by code_simp
  have 4: "generateComprehensiveRoadmap emptyObjectWorld ''Cooking'' defaultOptions
     = Some (Inr ((baseResult emptyObjectWorld ''Cooking'' defaultOptions)
                    \<lparr> roadmap := JObj [], sources := [], methodology := ''llm-fallback'',
                      totalSteps := JNum 0,
                      warning := Some ''Generated without web sources due to connectivity issues'' \<rparr>))"
    by code_simp
  have 5: "proposedSteps (JObj []) = []"
    by (simp add: proposedSteps_def getProp_def)
  show ?thesis using 1 2 3 4 5 by simp
qed

text \<open>
  C1 (amended): a failing search and failing scrapes do not make the web-enhanced path
  fail: the search falls back to the curated sources, a failed scrape gives its
  placeholder record, and the \<open>try\<close> block goes on to the primary synthesis.
  Whenever the primary synthesis call returns a reply from which \<open>extractJSON\<close>
  gets a value other than \<open>null\<close>, \<open>generateComprehensiveRoadmap\<close> resolves to a
  result with that value as roadmap (whatever steps it has), methodology
  \<open>web-enhanced-llm\<close> and no warning. The web-enhanced path fails exactly when the
  primary synthesis call throws or \<open>extractJSON\<close> returns \<open>null\<close> on its reply.
  Then \<open>generateComprehensiveRoadmap\<close> rejects with the exception of the fallback
  call to the model if that call throws; and if the fallback call returns a reply on
  which \<open>extractJSON\<close> returns, it resolves to a result with methodology
  \<open>llm-fallback\<close>, no sources and the warning. The roadmap of that result is the
  parsed value itself when it is truthy, and otherwise the static skeleton, whose only
  step is \<open>Introduction to <topic>\<close> of type \<open>theory\<close> with the requested level
  as difficulty (\<open>totalSteps\<close> is then 1).
\<close>

theorem generateComprehensiveRoadmap_fallback:
  "(\<forall>reply j. chat w (primaryPrompt w tp opts) = Inr reply \<and> extractJSON reply = Some j
        \<and> j \<noteq> JNull \<longrightarrow>
      (\<exists>res. generateComprehensiveRoadmap w tp opts = Some (Inr res)
          \<and> methodology res = ''web-enhanced-llm'' \<and> warning res = None
          \<and> roadmap res = j \<and> sources res = take 10 (rankedResourcesOf w tp)))
   \<and> ((\<exists>e. webEnhancedTry w tp opts = Some (Inl e)) \<longleftrightarrow>
        (\<exists>e. chat w (primaryPrompt w tp opts) = Inl e)
        \<or> (\<exists>reply. chat w (primaryPrompt w tp opts) = Inr reply \<and> extractJSON reply = Some JNull))
   \<and> ((\<exists>e. webEnhancedTry w tp opts = Some (Inl e)) \<longrightarrow>
        (\<forall>e'. chat w (fallbackPrompt tp opts) = Inl e' \<longrightarrow>
            generateComprehensiveRoadmap w tp opts = Some (Inl e'))
        \<and> (\<forall>reply j. chat w (fallbackPrompt tp opts) = Inr reply \<and> extractJSON reply = Some j \<longrightarrow>
            (\<exists>res. generateComprehensiveRoadmap w tp opts = Some (Inr res)
                \<and> methodology res = ''llm-fallback'' \<and> sources res = []
                \<and> warning res = Some ''Generated without web sources due to connectivity issues''
                \<and> (truthy j \<longrightarrow> roadmap res = j)
                \<and> (\<not> truthy j \<longrightarrow> roadmap res = skeleton tp opts \<and> totalSteps res = JNum 1))))
   \<and> proposedSteps (skeleton tp opts) = [skeletonStep tp opts]
   \<and> getProp (skeletonStep tp opts) ''title'' = Inr (Some (JStr (''Introduction to '' @ tp)))
   \<and> getProp (skeletonStep tp opts) ''type'' = Inr (Some (JStr ''theory''))
   \<and> getProp (skeletonStep tp opts) ''difficulty'' = Inr (map_option JStr (opt_level opts))"
proof -
  have web: "\<exists>res. generateComprehensiveRoadmap w tp opts = Some (Inr res)
          \<and> methodology res = ''web-enhanced-llm'' \<and> warning res = None
          \<and> roadmap res = j \<and> sources res = take 10 (rankedResourcesOf w tp)"
    if h: "chat w (primaryPrompt w tp opts) = Inr reply \<and> extractJSON reply = Some j \<and> j \<noteq> JNull"
    for reply j
  proof -
    from h obtain n where "totalStepsOf j = Inr n" using totalStepsOf_nonnull by blast
    then show ?thesis
      using h by (simp add: generateComprehensiveRoadmap_def webEnhancedTry_unfold baseResult_def)
  qed
  have rej: "generateComprehensiveRoadmap w tp opts = Some (Inl e')"
    if "webEnhancedTry w tp opts = Some (Inl e)" "chat w (fallbackPrompt tp opts) = Inl e'"
    for e e'
    using that
    by (simp add: generateComprehensiveRoadmap_def llmFallback_def generateFallbackRoadmap_def)
  have fb: "\<exists>res. generateComprehensiveRoadmap w tp opts = Some (Inr res)
                \<and> methodology res = ''llm-fallback'' \<and> sources res = []
                \<and> warning res = Some ''Generated without web sources due to connectivity issues''
                \<and> (truthy j \<longrightarrow> roadmap res = j)
                \<and> (\<not> truthy j \<longrightarrow> roadmap res = skeleton tp opts \<and> totalSteps res = JNum 1)"
    if f: "webEnhancedTry w tp opts = Some (Inl e)"
      and h: "chat w (fallbackPrompt tp opts) = Inr reply \<and> extractJSON reply = Some j"
    for e reply j
  proof (cases "truthy j")
    case True
    from totalStepsOf_resolves [OF True] obtain n where "totalStepsOf j = Inr n" by blast
    then show ?thesis
      using f h True
      by (simp add: generateComprehensiveRoadmap_def llmFallback_def generateFallbackRoadmap_def)
  next
    case False
    then show ?thesis
      using f h totalStepsOf_skeleton [of tp opts]
      by (simp add: generateComprehensiveRoadmap_def llmFallback_def generateFallbackRoadmap_def)
  qed
  have s1: "proposedSteps (skeleton tp opts) = [skeletonStep tp opts]"
    by (simp add: proposedSteps_def skeleton_def getProp_def)
  have s2: "getProp (skeletonStep tp opts) ''title'' = Inr (Some (JStr (''Introduction to '' @ tp)))"
    by (simp add: skeletonStep_def getProp_def)
  have s3: "getProp (skeletonStep tp opts) ''type'' = Inr (Some (JStr ''theory''))"
    by (simp add: skeletonStep_def getProp_def)
  have s4: "getProp (skeletonStep tp opts) ''difficulty'' = Inr (map_option JStr (opt_level opts))"
    by (cases "opt_level opts") (simp_all add: skeletonStep_def getProp_def)
  from web webEnhancedTry_fails [of w tp opts] rej fb s1 s2 s3 s4 show ?thesis by blast
qed

theorem generateComprehensiveRoadmap_fallback_witness:
  "httpGetSearch twoWeekWorld (''Python'' @ '' roadmap guide tutorial'')
     = Inl (Error ''timeout of 10000ms exceeded'')
   \<and> httpGetPage twoWeekWorld ''https://docs.python.org/3/tutorial/'' = Inl (Error ''Invalid URL'')
   \<and> (\<exists>res. generateComprehensiveRoadmap twoWeekWorld ''Python'' defaultOptions = Some (Inr res)
          \<and> methodology res = ''web-enhanced-llm'' \<and> warning res = None
          \<and> roadmap res = twoWeekJson)
   \<and> chat noJsonWorld (primaryPrompt noJsonWorld ''Cooking'' defaultOptions)
       = Inr ''I cannot help with that.''
   \<and> chat noJsonWorld (fallbackPrompt ''Cooking'' defaultOptions) = Inr ''I cannot help with that.''
   \<and> extractJSON ''I cannot help with that.'' = Some JNull
   \<and> (\<exists>res. generateComprehensiveRoadmap noJsonWorld ''Cooking'' defaultOptions = Some (Inr res)
          \<and> methodology res = ''llm-fallback''
          \<and> roadmap res = skeleton ''Cooking'' defaultOptions \<and> totalSteps res = JNum 1)"
proof -
  have a1: "httpGetSearch twoWeekWorld (''Python'' @ '' roadmap guide tutorial'')
             = Inl (Error ''timeout of 10000ms exceeded'')"
    by (simp add: twoWeekWorld_def offlineWorld_def)
  have a2: "httpGetPage twoWeekWorld ''https://docs.python.org/3/tutorial/'' = Inl (Error ''Invalid URL'')"
    by (simp add: twoWeekWorld_def offlineWorld_def)
  have a3: "chat twoWeekWorld (primaryPrompt twoWeekWorld ''Python'' defaultOptions) = Inr twoWeekPlan"
    by (simp add: twoWeekWorld_def)
  have a4: "extractJSON twoWeekPlan = Some twoWeekJson"
    by code_simp
  have a5: "twoWeekJson \<noteq> JNull" by (simp add: twoWeekJson_def)
  have b1: "chat noJsonWorld (primaryPrompt noJsonWorld ''Cooking'' defaultOptions)
             = Inr ''I cannot help with that.''"
    by (simp add: noJsonWorld_def)
  have b2: "chat noJsonWorld (fallbackPrompt ''Cooking'' defaultOptions) = Inr ''I cannot help with that.''"
    by (simp add: noJsonWorld_def)
  have b3: "extractJSON ''I cannot help with that.'' = Some JNull"
    by code_simp
  have nt: "\<not> truthy JNull" by (simp add: truthy_def)
  note t1 = generateComprehensiveRoadmap_fallback [of twoWeekWorld "''Python''" defaultOptions]
  note t2 = generateComprehensiveRoadmap_fallback [of noJsonWorld "''Cooking''" defaultOptions]
  have web: "\<exists>res. generateComprehensiveRoadmap twoWeekWorld ''Python'' defaultOptions = Some (Inr res)
          \<and> methodology res = ''web-enhanced-llm'' \<and> warning res = None
          \<and> roadmap res = twoWeekJson"
    using t1 [THEN conjunct1] a3 a4 a5 by blast
  have fails: "\<exists>e. webEnhancedTry noJsonWorld ''Cooking'' defaultOptions = Some (Inl e)"
    using t2 [THEN conjunct2, THEN conjunct1] b1 b3 by blast
  have "\<exists>res. generateComprehensiveRoadmap noJsonWorld ''Cooking'' defaultOptions = Some (Inr res)
          \<and> methodology res = ''llm-fallback''
          \<and> roadmap res = skeleton ''Cooking'' defaultOptions \<and> totalSteps res = JNum 1"
    using t2 [THEN conjunct2, THEN conjunct2, THEN conjunct1] fails b2 b3 nt by blast
  with a1 a2 web b1 b2 b3 show ?thesis by blast
qed

section \<open>Properties of generateRoadmapWithLLM\<close>

lemma sequenceE_Inr:
  "sequenceE rs = Inr vs \<Longrightarrow> length vs = length rs \<and> (\<forall>i < length rs. rs ! i = Inr (vs ! i))"
proof (induction rs arbitrary: vs)
  case Nil
  then show ?case by simp
next
  case (Cons r rs)
  then obtain v vs' where r: "r = Inr v" and vs': "sequenceE rs = Inr vs'" and vs: "vs = v # vs'"
    by (cases r; cases "sequenceE rs") auto
  from Cons.IH [OF vs'] show ?case
    unfolding r vs by (auto simp: nth_Cons split: nat.split)
qed

lemma length_indexed: "length (indexed i xs) = length xs"
  by (induction xs arbitrary: i) simp_all

lemma nth_indexed: "k < length xs \<Longrightarrow> indexed i xs ! k = (i + k, xs ! k)"
proof (induction xs arbitrary: i k)
  case Nil
  then show ?case by simp
next
  case (Cons x xs)
  then show ?case by (cases k) simp_all
qed

lemma researchStep_day:
  assumes "researchStep w (i, s) = Inr stp"
  shows "\<exists>d. getProp s ''day'' = Inr d \<and> dayOf w d i = Inr (day stp)"
proof -
  from assms obtain d where d: "getProp s ''day'' = Inr d"
    by (cases "getProp s ''day''") (simp_all add: researchStep_def)
  from assms d obtain dy where dy: "dayOf w d i = Inr dy"
    by (cases "dayOf w d i") (simp_all add: researchStep_def)
  define tp where "tp = (let t1 = projr (getProp s ''title''); t2 = projr (getProp s ''topic'')
                   in (if \<not> nullish t1 then jsString (numberToString w) (the t1)
                            else if \<not> nullish t2 then jsString (numberToString w) (the t2)
                            else Inr (''Day '' @ showNat (i + 1))))"
  define cs where "cs = stringList w (projr (getProp s ''concepts''))"
  have "day stp = dy"
    using assms unfolding researchStep_def Let_def
    by (simp add: d dy tp_def [symmetric, unfolded Let_def] cs_def [symmetric]
        split: sum.splits) auto
  with d dy show ?thesis by simp
qed

lemma basicStep_day:
  assumes "basicStep w (i, s) = Inr stp"
  shows "\<exists>d. getProp s ''day'' = Inr d \<and> dayOf w d i = Inr (day stp)"
proof -
  from assms obtain d where d: "getProp s ''day'' = Inr d"
    by (cases "getProp s ''day''") (simp_all add: basicStep_def)
  from assms d obtain dy where dy: "dayOf w d i = Inr dy"
    by (cases "dayOf w d i") (simp_all add: basicStep_def)
  define tp where "tp = (let t2 = projr (getProp s ''topic'')
                   in (if \<not> nullish t2 then jsString (numberToString w) (the t2)
                            else Inr (''Day '' @ showNat (i + 1))))"
  define ls where "ls = stringList w (projr (getProp s ''lessonIds''))"
  define cs where "cs = stringList w (projr (getProp s ''concepts''))"
  have "day stp = dy"
    using assms unfolding basicStep_def Let_def
    by (simp add: d dy tp_def [symmetric, unfolded Let_def] ls_def [symmetric] cs_def [symmetric]
        split: sum.splits) auto
  with d dy show ?thesis by simp
qed

lemma mapped_steps:
  assumes "sequenceE (map f (indexed 0 (take 7 xs))) = Inr sts"
      and "\<And>i s stp. f (i, s) = Inr stp \<Longrightarrow> \<exists>d. getProp s ''day'' = Inr d \<and> dayOf w d i = Inr (day stp)"
  shows "length sts = min 7 (length xs)
       \<and> (\<forall>i < length sts. \<exists>d. getProp (xs ! i) ''day'' = Inr d \<and> dayOf w d i = Inr (day (sts ! i)))"
proof -
  from sequenceE_Inr [OF assms(1)]
  have len: "length sts = length (take 7 xs)"
    and el: "\<forall>i < length (take 7 xs). f (indexed 0 (take 7 xs) ! i) = Inr (sts ! i)"
    by (simp_all add: length_indexed)
  have "\<exists>d. getProp (xs ! i) ''day'' = Inr d \<and> dayOf w d i = Inr (day (sts ! i))"
    if "i < length sts" for i
  proof -
    have i: "i < length (take 7 xs)" using that len by simp
    have "f (indexed 0 (take 7 xs) ! i) = Inr (sts ! i)" using el i by blast
    moreover have "indexed 0 (take 7 xs) ! i = (i, xs ! i)"
      using nth_indexed [OF i, of 0] i by simp
    ultimately have "f (i, xs ! i) = Inr (sts ! i)" by simp
    then show ?thesis by (rule assms(2))
  qed
  then show ?thesis using len by (simp add: min.commute)
qed

lemma researchSteps_days:
  assumes "researchSteps w rm = Inr sts"
  shows "length sts = min 7 (length (proposedSteps rm))
       \<and> (\<forall>i < length sts. \<exists>d. getProp (proposedSteps rm ! i) ''day'' = Inr d
                               \<and> dayOf w d i = Inr (day (sts ! i)))"
proof (cases "getProp rm ''steps''")
  case (Inl e)
  then show ?thesis using assms by (simp add: researchSteps_def firstSeven_def)
next
  case (Inr st)
  show ?thesis
  proof (cases "nullish st")
    case True
    then have "sts = []" using assms Inr by (simp add: researchSteps_def firstSeven_def)
    moreover have "proposedSteps rm = []"
      using True Inr by (auto simp: proposedSteps_def nullish_def)
    ultimately show ?thesis by simp
  next
    case False
    then obtain v where v: "st = Some v" by (cases st) (auto simp: nullish_def)
    from assms Inr False v obtain xs where xs: "v = JArr xs"
      by (cases v) (auto simp: researchSteps_def firstSeven_def)
    then have ps: "proposedSteps rm = xs" using Inr v by (simp add: proposedSteps_def)
    have "sequenceE (map (researchStep w) (indexed 0 (take 7 xs))) = Inr sts"
      using assms Inr False v xs by (simp add: researchSteps_def firstSeven_def)
    from mapped_steps [OF this researchStep_day] show ?thesis unfolding ps by blast
  qed
qed

lemma saveRoadmap_Inr:
  "saveRoadmap w st uid upd = Inr (doc, st')
     \<Longrightarrow> steps doc = map castStep (up_steps upd) \<and> st' uid = Some doc"
  by (auto simp: saveRoadmap_def Let_def split: option.splits)

lemma researchBranch_Inr:
  assumes "researchBranch w st uid p = Some (Inr (doc, st'))"
  shows "st' uid = Some doc
       \<and> (\<exists>res sts. generateComprehensiveRoadmap w (the (pf_skill p)) (researchOptions p) = Some (Inr res)
              \<and> researchSteps w (roadmap res) = Inr sts \<and> steps doc = map castStep sts)"
proof -
  from assms obtain res where res:
    "generateComprehensiveRoadmap w (the (pf_skill p)) (researchOptions p) = Some (Inr res)"
    by (auto simp: researchBranch_def split: option.splits sum.splits)
  with assms obtain sts where sts: "researchSteps w (roadmap res) = Inr sts"
    by (auto simp: researchBranch_def split: sum.splits)
  with assms res have "saveRoadmap w st uid
                       \<lparr> up_steps = sts, generatedWith = ''research-agent'',
                         metaSources = Some (take 5 (sources res)),
                         metaGeneratedAt = now w \<rparr> = Inr (doc, st')"
    by (simp add: researchBranch_def)
  from saveRoadmap_Inr [OF this] res sts show ?thesis by auto
qed

lemma basicBranch_Inr:
  assumes "basicBranch w st uid p b = Some (Inr (doc, st'))"
  shows "st' uid = Some doc
       \<and> (\<exists>reply j sts. chat w (buildPrompt p b) = Inr reply \<and> extractJSON reply = Some j
              \<and> sequenceE (map (basicStep w) (indexed 0 (take 7 (proposedSteps j)))) = Inr sts
              \<and> steps doc = map castStep sts)"
proof -
  from assms obtain reply where reply: "chat w (buildPrompt p b) = Inr reply"
    by (auto simp: basicBranch_def split: sum.splits)
  with assms obtain j where j: "extractJSON reply = Some j"
    by (auto simp: basicBranch_def split: option.splits)
  from assms reply j obtain xs where
    xs: "(if j = JNull then None else projr (getProp j ''steps'')) = Some (JArr xs)"
    by (auto simp: basicBranch_def split: option.splits json.splits)
  then have nn: "j \<noteq> JNull" by (auto split: if_splits)
  then obtain pr where pr: "getProp j ''steps'' = Inr pr" using getProp_resolves by blast
  with xs nn have ps: "proposedSteps j = xs" by (simp add: proposedSteps_def)
  from assms reply j xs obtain sts where
    sts: "sequenceE (map (basicStep w) (indexed 0 (take 7 xs))) = Inr sts"
    by (auto simp: basicBranch_def split: sum.splits)
  with assms reply j xs have "saveRoadmap w st uid
                       \<lparr> up_steps = sts, generatedWith = ''basic-llm'',
                         metaSources = None, metaGeneratedAt = now w \<rparr> = Inr (doc, st')"
    by (simp add: basicBranch_def)
  from saveRoadmap_Inr [OF this] reply j sts ps show ?thesis by auto
qed

lemma stored_days:
  assumes "length sts = n"
      and "\<forall>i < length sts. \<exists>d. getProp (xs ! i) ''day'' = Inr d \<and> dayOf w d i = Inr (day (sts ! i))"
  shows "length (map castStep sts) = n
       \<and> (\<forall>i < length (map castStep sts). \<exists>d dy. getProp (xs ! i) ''day'' = Inr d
              \<and> dayOf w d i = Inr dy \<and> st_day (map castStep sts ! i) = castDay dy)"
  using assms by (auto simp: castStep_def)

lemma castDay_Num: "castDay dy = Some (Num r) \<longleftrightarrow> dy = Num r"
  by (cases dy) (simp_all add: castDay_def)

lemma days_contiguous_iff:
  assumes "\<forall>i < length sts. \<exists>d dy. getProp (xs ! i) ''day'' = Inr d \<and> dayOf w d i = Inr dy
              \<and> st_day (sts ! i) = castDay dy"
  shows "map st_day sts = map (\<lambda>i. Some (Num (of_nat (i + 1)))) [0..<length sts]
         \<longleftrightarrow> (\<forall>i < length sts. dayOf w (projr (getProp (xs ! i) ''day'')) i
                                   = Inr (Num (of_nat (i + 1))))"
proof -
  have each: "st_day (sts ! i) = Some (Num (of_nat (i + 1)))
              \<longleftrightarrow> dayOf w (projr (getProp (xs ! i) ''day'')) i = Inr (Num (of_nat (i + 1)))"
    if "i < length sts" for i
  proof -
    from assms that obtain d dy where d: "getProp (xs ! i) ''day'' = Inr d"
      "dayOf w d i = Inr dy" "st_day (sts ! i) = castDay dy"
      by blast
    then show ?thesis by (simp add: castDay_Num)
  qed
  have "map st_day sts = map (\<lambda>i. Some (Num (of_nat (i + 1)))) [0..<length sts]
        \<longleftrightarrow> (\<forall>i < length sts. st_day (sts ! i) = Some (Num (of_nat (i + 1))))"
    by (subst list_eq_iff_nth_eq) simp
  also have "\<dots> \<longleftrightarrow> (\<forall>i < length sts. dayOf w (projr (getProp (xs ! i) ''day'')) i
                                   = Inr (Num (of_nat (i + 1))))"
    using each by blast
  finally show ?thesis .
qed

lemma days_in_order:
  assumes "\<forall>i < length sts. \<exists>d dy. getProp (xs ! i) ''day'' = Inr d \<and> dayOf w d i = Inr dy
              \<and> st_day (sts ! i) = castDay dy"
      and "\<forall>i < length sts. nullish (projr (getProp (xs ! i) ''day''))"
  shows "map st_day sts = map (\<lambda>i. Some (Num (of_nat (i + 1)))) [0..<length sts]"
  unfolding days_contiguous_iff [OF assms(1)]
  using assms(2) by (simp add: dayOf_def)

lemma twoWeek_parse: "JSON_parse twoWeekPlan = Some twoWeekJson"
  by code_simp

lemma twoWeek_result:
  "generateComprehensiveRoadmap twoWeekWorld ''Cooking'' (researchOptions cook)
     = Some (Inr ((baseResult twoWeekWorld ''Cooking'' (researchOptions cook))
                    \<lparr> roadmap := twoWeekJson, sources := [],
                      methodology := ''web-enhanced-llm'', totalSteps := JNum 8 \<rparr>))"
  by code_simp

lemma twoWeek_steps: "researchSteps twoWeekWorld twoWeekJson = Inr twoWeekSteps"
  by code_simp

lemma twoWeek_cast: "map castStep twoWeekSteps = steps twoWeekDoc"
  by code_simp

lemma eightDay_cast: "map castStep eightDaySteps = steps eightDayDoc"
  by code_simp

lemma planDoc_stored:
  assumes "findProfile w ''u1'' = Inr (Some cook)" and "findBank w ''u1'' = Inr None"
      and "writeError w ''u1'' (map schemaFields sts) = None"
      and "now w = ''2025-01-01T00:00:00.000Z''"
      and "generateComprehensiveRoadmap w ''Cooking'' (researchOptions cook) = Some (Inr res)"
      and "researchSteps w (roadmap res) = Inr sts"
  shows "generateRoadmapWithLLM w emptyStore ''u1'' True
           = Some (Inr (planDoc (map castStep sts), emptyStore (''u1'' := Some (planDoc (map castStep sts)))))"
proof -
  have sk: "pf_skill cook = Some ''Cooking''" by (simp add: cook_def)
  show ?thesis
    by (simp add: generateRoadmapWithLLM_def researchBranch_def saveRoadmap_def
        assms sk planDoc_def emptyStore_def Let_def)
qed

lemma twoWeek_stored:
  "generateRoadmapWithLLM twoWeekWorld emptyStore ''u1'' True
     = Some (Inr (twoWeekDoc, emptyStore (''u1'' := Some twoWeekDoc)))"
proof -
  have pf: "findProfile twoWeekWorld ''u1'' = Inr (Some cook)"
    by (simp add: twoWeekWorld_def)
  have bk: "findBank twoWeekWorld ''u1'' = Inr None"
    by (simp add: twoWeekWorld_def offlineWorld_def)
  have we: "writeError twoWeekWorld ''u1'' (map schemaFields twoWeekSteps) = None"
    by (simp add: twoWeekWorld_def offlineWorld_def)
  have nw: "now twoWeekWorld = ''2025-01-01T00:00:00.000Z''"
    by (simp add: twoWeekWorld_def offlineWorld_def)
  have st: "researchSteps twoWeekWorld
              (roadmap ((baseResult twoWeekWorld ''Cooking'' (researchOptions cook))
                    \<lparr> roadmap := twoWeekJson, sources := [],
                      methodology := ''web-enhanced-llm'', totalSteps := JNum 8 \<rparr>)) = Inr twoWeekSteps"
    by (simp add: twoWeek_steps)
  have doc: "planDoc (map castStep twoWeekSteps) = twoWeekDoc"
    unfolding twoWeek_cast by (simp add: twoWeekDoc_def planDoc_def)
  show ?thesis
    using planDoc_stored [OF pf bk we nw twoWeek_result st] unfolding doc .
qed

lemma twoWeek_days:
  "map st_day (steps twoWeekDoc)
     = [Some (Num 1), Some (Num 2), Some (Num 3), Some (Num 4), Some (Num 5), Some (Num 1), Some (Num 2)]"
  by (simp add: twoWeekDoc_def planDoc_def storedPlain_def)

lemma twoWeek_proposed: "length (proposedSteps twoWeekJson) = 8"
  by (simp add: proposedSteps_def twoWeekJson_def getProp_def)

lemma eightDay_result:
  "generateComprehensiveRoadmap eightDayWorld ''Cooking'' (researchOptions cook)
     = Some (Inr ((baseResult eightDayWorld ''Cooking'' (researchOptions cook))
                    \<lparr> roadmap := eightDayJson, sources := [],
                      methodology := ''web-enhanced-llm'', totalSteps := JNum 8 \<rparr>))"
  by code_simp

lemma eightDay_steps: "researchSteps eightDayWorld eightDayJson = Inr eightDaySteps"
  by code_simp

lemma eightDay_stored:
  "generateRoadmapWithLLM eightDayWorld emptyStore ''u1'' True
     = Some (Inr (eightDayDoc, emptyStore (''u1'' := Some eightDayDoc)))"
proof -
  have pf: "findProfile eightDayWorld ''u1'' = Inr (Some cook)"
    by (simp add: eightDayWorld_def twoWeekWorld_def)
  have bk: "findBank eightDayWorld ''u1'' = Inr None"
    by (simp add: eightDayWorld_def twoWeekWorld_def offlineWorld_def)
  have we: "writeError eightDayWorld ''u1'' (map schemaFields eightDaySteps) = None"
    by (simp add: eightDayWorld_def twoWeekWorld_def offlineWorld_def)
  have nw: "now eightDayWorld = ''2025-01-01T00:00:00.000Z''"
    by (simp add: eightDayWorld_def twoWeekWorld_def offlineWorld_def)
  have st: "researchSteps eightDayWorld
              (roadmap ((baseResult eightDayWorld ''Cooking'' (researchOptions cook))
                    \<lparr> roadmap := eightDayJson, sources := [],
                      methodology := ''web-enhanced-llm'', totalSteps := JNum 8 \<rparr>)) = Inr eightDaySteps"
    by (simp add: eightDay_steps)
  have doc: "planDoc (map castStep eightDaySteps) = eightDayDoc"
    unfolding eightDay_cast by (simp add: eightDayDoc_def planDoc_def)
  show ?thesis
    using planDoc_stored [OF pf bk we nw eightDay_result st] unfolding doc .
qed

text \<open>
  C4 (as stated) fails: the day of a stored step is the day the synthesis output
  gives. For a plan of eight steps over two weeks (days 1 to 5, then 1 to 3) the stored
  roadmap has seven steps with the days 1, 2, 3, 4, 5, 1, 2.
\<close>

theorem generateRoadmapWithLLM_days_counterexample:
  "JSON_parse twoWeekPlan = Some twoWeekJson
   \<and> length (proposedSteps twoWeekJson) = 8
   \<and> generateRoadmapWithLLM twoWeekWorld emptyStore ''u1'' True
       = Some (Inr (twoWeekDoc, emptyStore (''u1'' := Some twoWeekDoc)))
   \<and> map st_day (steps twoWeekDoc)
       = [Some (Num 1), Some (Num 2), Some (Num 3), Some (Num 4), Some (Num 5), Some (Num 1), Some (Num 2)]
   \<and> map st_day (steps twoWeekDoc)
       \<noteq> [Some (Num 1), Some (Num 2), Some (Num 3), Some (Num 4), Some (Num 5), Some (Num 6), Some (Num 7)]"
  using twoWeek_parse twoWeek_proposed twoWeek_stored twoWeek_days by simp

text \<open>
  C4 (amended): whenever \<open>generateRoadmapWithLLM\<close> returns, the roadmap it stored for
  the user has at most 7 steps: one for each of the first seven steps the synthesis
  output proposes, in order. The stored day of the step at position \<open>i\<close> (from 0) is
  \<open>Number(s.day ?? i + 1)\<close> for the proposed step \<open>s\<close>: the day the synthesis output
  gives, and the position plus one where it gives none; the days are never renumbered.
  So the stored days are the contiguous sequence 1, 2, ... exactly when
  \<open>Number(s.day ?? i + 1)\<close> is \<open>i + 1\<close> for each of these steps, that is, when each
  of them carries no day or a day whose Number value is its position plus one; in
  particular when no proposed step carries a day.
\<close>

theorem generateRoadmapWithLLM_steps:
  assumes "generateRoadmapWithLLM w st uid ra = Some (Inr (doc, st'))"
  shows "st' uid = Some doc \<and> length (steps doc) \<le> 7
       \<and> (\<exists>rm. ((\<exists>p res. findProfile w uid = Inr (Some p)
                      \<and> generateComprehensiveRoadmap w (the (pf_skill p)) (researchOptions p) = Some (Inr res)
                      \<and> rm = roadmap res)
                  \<or> (\<exists>p b reply. findProfile w uid = Inr p \<and> findBank w uid = Inr b
                         \<and> chat w (buildPrompt p b) = Inr reply \<and> extractJSON reply = Some rm))
              \<and> length (steps doc) = min 7 (length (proposedSteps rm))
              \<and> (\<forall>i < length (steps doc). \<exists>d dy. getProp (proposedSteps rm ! i) ''day'' = Inr d
                      \<and> dayOf w d i = Inr dy \<and> st_day (steps doc ! i) = castDay dy)
              \<and> (map st_day (steps doc) = map (\<lambda>i. Some (Num (of_nat (i + 1)))) [0..<length (steps doc)]
                    \<longleftrightarrow> (\<forall>i < length (steps doc).
                           dayOf w (projr (getProp (proposedSteps rm ! i) ''day'')) i
                             = Inr (Num (of_nat (i + 1)))))
              \<and> ((\<forall>i < length (steps doc). nullish (projr (getProp (proposedSteps rm ! i) ''day'')))
                    \<longrightarrow> map st_day (steps doc)
                          = map (\<lambda>i. Some (Num (of_nat (i + 1)))) [0..<length (steps doc)]))"
proof -
  from assms obtain p b where pb: "findProfile w uid = Inr p" "findBank w uid = Inr b"
    by (auto simp: generateRoadmapWithLLM_def split: sum.splits)
  define viaResearch where
    "viaResearch \<longleftrightarrow> (\<exists>q. p = Some q \<and> researchBranch w st uid q = Some (Inr (doc, st')))"
  have branches: "viaResearch \<or> basicBranch w st uid p b = Some (Inr (doc, st'))"
    using assms pb unfolding viaResearch_def
    by (auto simp: generateRoadmapWithLLM_def split: if_splits option.splits sum.splits)
  have core: "st' uid = Some doc
       \<and> (\<exists>rm. ((\<exists>p res. findProfile w uid = Inr (Some p)
                      \<and> generateComprehensiveRoadmap w (the (pf_skill p)) (researchOptions p) = Some (Inr res)
                      \<and> rm = roadmap res)
                  \<or> (\<exists>p b reply. findProfile w uid = Inr p \<and> findBank w uid = Inr b
                         \<and> chat w (buildPrompt p b) = Inr reply \<and> extractJSON reply = Some rm))
              \<and> length (steps doc) = min 7 (length (proposedSteps rm))
              \<and> (\<forall>i < length (steps doc). \<exists>d dy. getProp (proposedSteps rm ! i) ''day'' = Inr d
                      \<and> dayOf w d i = Inr dy \<and> st_day (steps doc ! i) = castDay dy))"
  proof (cases viaResearch)
    case True
    then obtain q where q: "p = Some q" "researchBranch w st uid q = Some (Inr (doc, st'))"
      unfolding viaResearch_def by blast
    from researchBranch_Inr [OF q(2)] obtain res sts where
      r: "st' uid = Some doc"
         "generateComprehensiveRoadmap w (the (pf_skill q)) (researchOptions q) = Some (Inr res)"
         "researchSteps w (roadmap res) = Inr sts" "steps doc = map castStep sts"
      by blast
    from researchSteps_days [OF r(3)]
    have "length sts = min 7 (length (proposedSteps (roadmap res)))"
      and "\<forall>i < length sts. \<exists>d. getProp (proposedSteps (roadmap res) ! i) ''day'' = Inr d
                               \<and> dayOf w d i = Inr (day (sts ! i))"
      by blast+
    from stored_days [OF this] r(1,2) pb(1) q(1) show ?thesis unfolding r(4) by blast
  next
    case False
    with branches have bb: "basicBranch w st uid p b = Some (Inr (doc, st'))" by blast
    from basicBranch_Inr [OF bb] obtain reply j sts where
      r: "st' uid = Some doc"
         "chat w (buildPrompt p b) = Inr reply" "extractJSON reply = Some j"
         "sequenceE (map (basicStep w) (indexed 0 (take 7 (proposedSteps j)))) = Inr sts"
         "steps doc = map castStep sts"
      by blast
    from mapped_steps [OF r(4) basicStep_day]
    have "length sts = min 7 (length (proposedSteps j))"
      and "\<forall>i < length sts. \<exists>d. getProp (proposedSteps j ! i) ''day'' = Inr d
                               \<and> dayOf w d i = Inr (day (sts ! i))"
      by blast+
    from stored_days [OF this] r(1,2,3) pb show ?thesis unfolding r(5) by blast
  qed
  then obtain rm where rm:
    "(\<exists>p res. findProfile w uid = Inr (Some p)
         \<and> generateComprehensiveRoadmap w (the (pf_skill p)) (researchOptions p) = Some (Inr res)
         \<and> rm = roadmap res)
     \<or> (\<exists>p b reply. findProfile w uid = Inr p \<and> findBank w uid = Inr b
            \<and> chat w (buildPrompt p b) = Inr reply \<and> extractJSON reply = Some rm)"
    "length (steps doc) = min 7 (length (proposedSteps rm))"
    "\<forall>i < length (steps doc). \<exists>d dy. getProp (proposedSteps rm ! i) ''day'' = Inr d
         \<and> dayOf w d i = Inr dy \<and> st_day (steps doc ! i) = castDay dy"
    by blast
  have le: "length (steps doc) \<le> 7" using rm(2) by simp
  note iff = days_contiguous_iff [OF rm(3)]
  have ord: "(\<forall>i < length (steps doc). nullish (projr (getProp (proposedSteps rm ! i) ''day'')))
                    \<longrightarrow> map st_day (steps doc)
                          = map (\<lambda>i. Some (Num (of_nat (i + 1)))) [0..<length (steps doc)]"
    using days_in_order [OF rm(3)] by blast
  from core have uid: "st' uid = Some doc" by blast
  from uid le rm iff ord show ?thesis by blast
qed

theorem generateRoadmapWithLLM_steps_witness:
  "generateRoadmapWithLLM eightDayWorld emptyStore ''u1'' True
     = Some (Inr (eightDayDoc, emptyStore (''u1'' := Some eightDayDoc)))
   \<and> (emptyStore (''u1'' := Some eightDayDoc)) ''u1'' = Some eightDayDoc
   \<and> length (steps eightDayDoc) \<le> 7
   \<and> map st_day (steps eightDayDoc)
       = [Some (Num 1), Some (Num 2), Some (Num 3), Some (Num 4), Some (Num 5), Some (Num 6), Some (Num 7)]"
proof -
  have le: "(emptyStore (''u1'' := Some eightDayDoc)) ''u1'' = Some eightDayDoc
            \<and> length (steps eightDayDoc) \<le> 7"
    using generateRoadmapWithLLM_steps [OF eightDay_stored] by blast
  have ds: "map st_day (steps eightDayDoc)
       = [Some (Num 1), Some (Num 2), Some (Num 3), Some (Num 4), Some (Num 5), Some (Num 6), Some (Num 7)]"
    by (simp add: eightDayDoc_def planDoc_def storedPlain_def)
  from eightDay_stored le ds show ?thesis by blast
qed

end
